theory Spec2Isabelle
  imports Complex_Main "HOL-Library.Multiset"
begin

section \<open>Conventions of the embedding\<close>

text \<open>
  The Python sources compute with unbounded integers and with binary floating point
  numbers. Integers are modelled by \<^typ>\<open>int\<close>. Floating point values are modelled
  by \<^typ>\<open>real\<close> (and Python's \<^verbatim>\<open>complex\<close> by \<^typ>\<open>complex\<close>): rounding, infinities
  and NaN are outside the model. Every \<^verbatim>\<open>raise\<close> of the source, and every exception
  raised by a built-in the source calls, is a value of the type \<open>error\<close>; a function
  that can raise returns \<open>error + 'a\<close> with \<open>Inl\<close> for the exception.
\<close>

datatype type_error =
    NotAnOptionLine          \<comment> \<open>\<^verbatim>\<open>TypeError("Not an option line: ...")\<close>\<close>
  | IllegalOptionLine        \<comment> \<open>\<^verbatim>\<open>TypeError("Illegial option line: ...")\<close>\<close>
  | FrequencyNotAscending    \<comment> \<open>\<^verbatim>\<open>TypeError("Frequeny not ascending: ...")\<close>\<close>
  | DataValuesNotPairs       \<comment> \<open>\<^verbatim>\<open>TypeError("Data values aren't pairs: ...")\<close>\<close>
  | InconsistentPairs        \<comment> \<open>\<^verbatim>\<open>TypeError("Inconsistent number of pairs: ...")\<close>\<close>
  | BadCall                  \<comment> \<open>raised by the interpreter: wrong number of arguments\<close>
  | BadOperand               \<comment> \<open>raised by the interpreter: unsupported operand type\<close>

datatype error =
    ZeroDivisionError
  | ValueError
  | IndexError
  | KeyError
  | AxisError
  | StopIteration
  | AttributeError
  | IOError
  | TypeError type_error
  | NonFinite  \<comment> \<open>not an exception: numpy arithmetic went to nan or inf, outside the model\<close>

section \<open>SweepWorker.py: the sweep plan\<close>

text \<open>
  \<^verbatim>\<open>int(x)\<close> on a float truncates towards zero.
\<close>

definition int_of_float :: "real \<Rightarrow> int" where
  "int_of_float x = (if 0 \<le> x then \<lfloor>x\<rfloor> else \<lceil>x\<rceil>)"

record sweep =
  start :: int
  end' :: int
  points :: int
  sweeps :: int
  span :: int
  step :: int

text \<open>
  \<^verbatim>\<open>stepsize\<close>: \<^verbatim>\<open>int(self.span / (self.points * self.sweeps - 1))\<close>. The division is
  Python's true division of two integers, which raises on a zero divisor and otherwise
  gives the float nearest to the quotient. The model takes the exact quotient. For a
  span below \<open>2 ^ 53\<close> the nearest float truncates to the same integer as the exact
  quotient; from \<open>2 ^ 53\<close> on it need not (the span \<open>10 ^ 17 - 1\<close> over 10 gives
  \<open>10 ^ 16\<close> in floats), so every fact that depends on the value of the step is stated
  for spans below \<open>2 ^ 53\<close>.
\<close>

definition stepsize :: "int \<Rightarrow> int \<Rightarrow> int \<Rightarrow> error + int" where
  "stepsize sp p n =
     (if p * n - 1 = 0 then Inl ZeroDivisionError
      else Inr (int_of_float (real_of_int sp / real_of_int (p * n - 1))))"

definition check :: "sweep \<Rightarrow> error + unit" where
  "check s =
     (if \<not> (sweeps s > 0 \<and> points s > 0 \<and> start s > 0 \<and> end' s > 0 \<and> step s \<ge> 1)
      then Inl ValueError else Inr ())"

text \<open>
  The constructor: the fields are assigned in order, \<^verbatim>\<open>self.step = self.stepsize()\<close>
  runs before \<^verbatim>\<open>self.check()\<close>.
\<close>

definition Sweep :: "int \<Rightarrow> int \<Rightarrow> int \<Rightarrow> int \<Rightarrow> error + sweep" where
  "Sweep s e p n =
     (case stepsize (e - s) p n of
        Inl err \<Rightarrow> Inl err
      | Inr st \<Rightarrow>
          (let sw = \<lparr>start = s, end' = e, points = p, sweeps = n, span = e - s, step = st\<rparr>
           in case check sw of Inl err \<Rightarrow> Inl err | Inr _ \<Rightarrow> Inr sw))"

definition get_index_range :: "sweep \<Rightarrow> int \<Rightarrow> int \<times> int" where
  "get_index_range s index =
     (let st = start s + index * points s * step s;
          en = st + (points s - 1) * step s
      in (st, en))"

section \<open>Calibration.py: the calibration model\<close>

text \<open>
  \<^verbatim>\<open>Datapoint = collections.namedtuple('Datapoint', 'freq re im')\<close>. The frequency is an
  integer in calibration data and a float in Touchstone data, so its type is a parameter.
\<close>

datatype 'f datapoint = Datapoint (freq: 'f) (re: real) (im: real)

text \<open>
  Sequencing of computations that can raise, and Python's \<^verbatim>\<open>xs[i]\<close> for an index that
  is not negative.
\<close>

definition ebind :: "error + 'a \<Rightarrow> ('a \<Rightarrow> error + 'b) \<Rightarrow> error + 'b" where
  "ebind m f = (case m of Inl e \<Rightarrow> Inl e | Inr x \<Rightarrow> f x)"

definition py_get :: "'a list \<Rightarrow> nat \<Rightarrow> error + 'a" where
  "py_get xs i = (if i < length xs then Inr (xs ! i) else Inl IndexError)"

text \<open>
  An entry of one of the error-term lists. \<^verbatim>\<open>calculateCorrections\<close> first fills the lists
  with the placeholder \<^verbatim>\<open>np.complex\<close> (the type object itself): \<open>Unset\<close>. A computed
  term is a built-in \<^verbatim>\<open>complex\<close> when only ideal standards entered it, and a numpy
  scalar once a factor \<^verbatim>\<open>np.exp(...)\<close> of a parametric standard entered it. The two
  differ at a division by zero: built-in numbers raise ZeroDivisionError, numpy scalars
  go on with nan or inf, which the model reports as \<open>NonFinite\<close>.
\<close>

datatype cell = Unset | PyComplex complex | NpComplex complex

definition mk_cell :: "bool \<Rightarrow> complex \<Rightarrow> cell" where
  "mk_cell is_np z = (if is_np then NpComplex z else PyComplex z)"

fun cell_binop :: "(complex \<Rightarrow> complex \<Rightarrow> complex) \<Rightarrow> cell \<Rightarrow> cell \<Rightarrow> error + cell" where
  "cell_binop f Unset y = Inl (TypeError BadOperand)"
| "cell_binop f x Unset = Inl (TypeError BadOperand)"
| "cell_binop f (PyComplex a) (PyComplex b) = Inr (PyComplex (f a b))"
| "cell_binop f (PyComplex a) (NpComplex b) = Inr (NpComplex (f a b))"
| "cell_binop f (NpComplex a) (PyComplex b) = Inr (NpComplex (f a b))"
| "cell_binop f (NpComplex a) (NpComplex b) = Inr (NpComplex (f a b))"

fun cell_div :: "cell \<Rightarrow> cell \<Rightarrow> error + complex" where
  "cell_div Unset y = Inl (TypeError BadOperand)"
| "cell_div x Unset = Inl (TypeError BadOperand)"
| "cell_div (PyComplex a) (PyComplex b) = (if b = 0 then Inl ZeroDivisionError else Inr (a / b))"
| "cell_div (PyComplex a) (NpComplex b) = (if b = 0 then Inl NonFinite else Inr (a / b))"
| "cell_div (NpComplex a) (PyComplex b) = (if b = 0 then Inl NonFinite else Inr (a / b))"
| "cell_div (NpComplex a) (NpComplex b) = (if b = 0 then Inl NonFinite else Inr (a / b))"

record calibration =
  s11short :: "int datapoint list"
  s11open :: "int datapoint list"
  s11load :: "int datapoint list"
  s21through :: "int datapoint list"
  s21isolation :: "int datapoint list"
  frequencies :: "int option list"
  e00 :: "cell list"
  e11 :: "cell list"
  deltaE :: "cell list"
  e30 :: "cell list"
  e10e32 :: "cell list"
  useIdealShort :: bool
  shortL0 :: real
  shortL1 :: real
  shortL2 :: real
  shortL3 :: real
  shortLength :: real
  useIdealOpen :: bool
  openC0 :: real
  openC1 :: real
  openC2 :: real
  openC3 :: real
  openLength :: real
  useIdealLoad :: bool
  loadR :: real
  loadL :: real
  isCalculated :: bool

definition shortIdeal :: complex where "shortIdeal = Complex (-1) 0"
definition openIdeal :: complex where "openIdeal = Complex 1 0"
definition loadIdeal :: complex where "loadIdeal = Complex 0 0"

text \<open>The class attributes of \<^verbatim>\<open>Calibration\<close>: the state of a fresh instance.\<close>

definition Calibration :: calibration where
  "Calibration = \<lparr>
     s11short = [], s11open = [], s11load = [], s21through = [], s21isolation = [],
     frequencies = [], e00 = [], e11 = [], deltaE = [], e30 = [], e10e32 = [],
     useIdealShort = True,
     shortL0 = 5.7 * (10 / 10 ^ 12), shortL1 = - 8960 * (10 / 10 ^ 24),
     shortL2 = - 1100 * (10 / 10 ^ 33), shortL3 = - 41200 * (10 / 10 ^ 42),
     shortLength = - 34.2,
     useIdealOpen = True,
     openC0 = 2.1 * (10 / 10 ^ 14), openC1 = 5.67 * (10 / 10 ^ 23),
     openC2 = - 2.39 * (10 / 10 ^ 31), openC3 = 2.0 * (10 / 10 ^ 40),
     openLength = 0,
     useIdealLoad = True, loadR = 25, loadL = 0,
     isCalculated = False \<rparr>"

definition isValid1Port :: "calibration \<Rightarrow> bool" where
  "isValid1Port c \<longleftrightarrow>
     length (s11short c) > 0 \<and> length (s11open c) > 0 \<and> length (s11load c) > 0"

definition isValid2Port :: "calibration \<Rightarrow> bool" where
  "isValid2Port c \<longleftrightarrow>
     length (s21through c) > 0 \<and> length (s21isolation c) > 0 \<and> isValid1Port c"

text \<open>
  The modelled reflection coefficients of the three standards at frequency \<open>f\<close>, each
  with the flag "is a numpy scalar". Only the load model can raise: its division is
  one of Python floats.
\<close>

definition short_model :: "calibration \<Rightarrow> int \<Rightarrow> bool \<times> complex" where
  "short_model c f =
     (if useIdealShort c then (False, shortIdeal)
      else
        let Zsp = Complex 0 1 * 2 * complex_of_real pi * of_int f *
                    complex_of_real (shortL0 c + shortL1 c * of_int f +
                       shortL2 c * of_int f ^ 2 + shortL3 c * of_int f ^ 3);
            gammaShort = ((Zsp / 50) - 1) / ((Zsp / 50) + 1)
        in (True, gammaShort *
              exp (Complex 0 1 * 2 * 2 * complex_of_real pi * of_int f *
                   complex_of_real (shortLength c) * (- 1))))"

definition open_model :: "calibration \<Rightarrow> int \<Rightarrow> bool \<times> complex" where
  "open_model c f =
     (if useIdealOpen c then (False, openIdeal)
      else
        let divisor = 2 * pi * of_int f *
                        (openC0 c + openC1 c * of_int f + openC2 c * of_int f ^ 2 +
                         openC3 c * of_int f ^ 3)
        in if divisor \<noteq> 0 then
             let Zop = Complex 0 (- 1) / complex_of_real divisor;
                 gammaOpen = ((Zop / 50) - 1) / ((Zop / 50) + 1)
             in (True, gammaOpen *
                   exp (Complex 0 1 * 2 * 2 * complex_of_real pi * of_int f *
                        complex_of_real (openLength c) * (- 1)))
           else (False, openIdeal))"

definition load_model :: "calibration \<Rightarrow> int \<Rightarrow> error + complex" where
  "load_model c f =
     (if useIdealLoad c then Inr loadIdeal
      else
        let Zl = loadR c + 2 * pi * of_int f * loadL c
        in if (Zl / 50) + 1 = 0 then Inl ZeroDivisionError
           else Inr (complex_of_real (((Zl / 50) - 1) / ((Zl / 50) + 1))))"

text \<open>
  One pass of the loop body of \<^verbatim>\<open>calculateCorrections\<close>, for the index \<open>i\<close>. The body
  goes on to the next index, or returns \<^verbatim>\<open>None\<close> from the \<^verbatim>\<open>except\<close> branch, or raises;
  the object keeps what was assigned before.
\<close>

datatype flow = Next calibration | ReturnNone calibration | Raise calibration error

definition two_port_terms :: "calibration \<Rightarrow> nat \<Rightarrow> bool \<Rightarrow> complex \<Rightarrow> flow" where
  "two_port_terms c i is_np e11i =
     (if isValid2Port c then
        (case py_get (s21isolation c) i of
           Inl err \<Rightarrow> Raise c err
         | Inr isol \<Rightarrow>
             let e30i = Complex (re isol) (im isol);
                 c1 = c\<lparr>e30 := (e30 c)[i := PyComplex e30i]\<rparr>
             in (case py_get (s21through c1) i of
                   Inl err \<Rightarrow> Raise c1 err
                 | Inr thr \<Rightarrow>
                     let s21m = Complex (re thr) (im thr)
                     in Next (c1\<lparr>e10e32 :=
                          (e10e32 c1)[i := mk_cell is_np ((s21m - e30i) * (1 - (e11i * e11i)))]\<rparr>)))
      else Next c)"

definition calc_index :: "calibration \<Rightarrow> nat \<Rightarrow> flow" where
  "calc_index c0 i =
     (let f = freq (s11short c0 ! i);
          c = c0\<lparr>frequencies := (frequencies c0)[i := Some f]\<rparr>;
          (np1, g1) = short_model c f;
          (np2, g2) = open_model c f
      in case load_model c f of
           Inl err \<Rightarrow> Raise c err
         | Inr g3 \<Rightarrow>
            (let gm1 = Complex (re (s11short c ! i)) (im (s11short c ! i))
             in case py_get (s11open c) i of
                  Inl err \<Rightarrow> Raise c err
                | Inr opn \<Rightarrow>
                   (case py_get (s11load c) i of
                      Inl err \<Rightarrow> Raise c err
                    | Inr ld \<Rightarrow>
                       (let gm2 = Complex (re opn) (im opn);
                            gm3 = Complex (re ld) (im ld);
                            is_np = (np1 \<or> np2);
                            denominator =
                              g1 * (g2 - g3) * gm1 + g2 * g3 * gm2 - g2 * g3 * gm3
                                - (g2 * gm2 - g3 * gm3) * g1
                        in if denominator = 0 then
                             (if is_np then Raise c NonFinite
                              else ReturnNone (c\<lparr>isCalculated := False\<rparr>))
                           else
                             let e00i = - ((g2 * gm3 - g3 * gm3) * g1 * gm2
                                           - (g2 * g3 * gm2 - g2 * g3 * gm3
                                              - (g3 * gm2 - g2 * gm3) * g1) * gm1) / denominator;
                                 e11i = ((g2 - g3) * gm1 - g1 * (gm2 - gm3) + g3 * gm2 - g2 * gm3)
                                          / denominator;
                                 deltaEi = - ((g1 * (gm2 - gm3) - g2 * gm2 + g3 * gm3) * gm1
                                              + (g2 * gm3 - g3 * gm3) * gm2) / denominator;
                                 c1 = c\<lparr>e00 := (e00 c)[i := mk_cell is_np e00i]\<rparr>;
                                 c2 = c1\<lparr>e11 := (e11 c1)[i := mk_cell is_np e11i]\<rparr>;
                                 c3 = c2\<lparr>deltaE := (deltaE c2)[i := mk_cell is_np deltaEi]\<rparr>
                             in two_port_terms c3 i is_np e11i))))"

fun calc_loop :: "calibration \<Rightarrow> nat list \<Rightarrow> flow" where
  "calc_loop c [] = Next c"
| "calc_loop c (i # rest) =
     (case calc_index c i of
        Next c' \<Rightarrow> calc_loop c' rest
      | ReturnNone c' \<Rightarrow> ReturnNone c'
      | Raise c' err \<Rightarrow> Raise c' err)"

text \<open>
  \<^verbatim>\<open>calculateCorrections\<close> returns the object's new state and either the exception or
  the returned value: \<^verbatim>\<open>False\<close>, \<^verbatim>\<open>True\<close>, or \<^verbatim>\<open>None\<close> (the bare \<^verbatim>\<open>return\<close>).
\<close>

definition calculateCorrections :: "calibration \<Rightarrow> calibration \<times> (error + bool option)" where
  "calculateCorrections c =
     (if \<not> isValid1Port c then (c, Inr (Some False))
      else
        let n = length (s11short c);
            c1 = c\<lparr>frequencies := replicate n None,
                   e00 := replicate n Unset, e11 := replicate n Unset,
                   deltaE := replicate n Unset, e30 := replicate n Unset,
                   e10e32 := replicate n Unset\<rparr>
        in case calc_loop c1 [0..<n] of
             Next c2 \<Rightarrow> (c2\<lparr>isCalculated := True\<rparr>, Inr (Some True))
           | ReturnNone c2 \<Rightarrow> (c2, Inr None)
           | Raise c2 err \<Rightarrow> (c2, Inl err))"

text \<open>
  The nearest-frequency scan shared by \<^verbatim>\<open>correct11\<close> and \<^verbatim>\<open>correct21\<close>: the state of
  the loop is the pair \<^verbatim>\<open>(index, distance)\<close>, which starts at \<^verbatim>\<open>(0, 10**10)\<close>.
\<close>

definition nearest_step :: "int datapoint list \<Rightarrow> int \<Rightarrow> nat \<times> int \<Rightarrow> nat \<Rightarrow> nat \<times> int" where
  "nearest_step xs f st i =
     (if \<bar>freq (xs ! i) - f\<bar> < snd st then (i, \<bar>freq (xs ! i) - f\<bar>) else st)"

definition nearest_index :: "int datapoint list \<Rightarrow> int \<Rightarrow> nat" where
  "nearest_index xs f = fst (foldl (nearest_step xs f) (0, 10 ^ 10) [0..<length xs])"

text \<open>
  \<^verbatim>\<open>correct11(self, re, im, freq)\<close>. The operands are evaluated in the order of the
  expression \<^verbatim>\<open>(s11m - e00[index]) / ((s11m * e11[index]) - deltaE[index])\<close>.
\<close>

definition correct11 :: "calibration \<Rightarrow> real \<Rightarrow> real \<Rightarrow> int \<Rightarrow> error + real \<times> real" where
  "correct11 c r i f =
     (let s11m = PyComplex (Complex r i);
          index = nearest_index (s11short c) f
      in ebind (py_get (e00 c) index) (\<lambda>a.
         ebind (cell_binop (-) s11m a) (\<lambda>num.
         ebind (py_get (e11 c) index) (\<lambda>b.
         ebind (cell_binop (*) s11m b) (\<lambda>pr.
         ebind (py_get (deltaE c) index) (\<lambda>d.
         ebind (cell_binop (-) pr d) (\<lambda>den.
         ebind (cell_div num den) (\<lambda>s11. Inr (Re s11, Im s11)))))))))"

definition correct21 :: "calibration \<Rightarrow> real \<Rightarrow> real \<Rightarrow> int \<Rightarrow> error + real \<times> real" where
  "correct21 c r i f =
     (let s21m = PyComplex (Complex r i);
          index = nearest_index (s21through c) f
      in ebind (py_get (e30 c) index) (\<lambda>a.
         ebind (cell_binop (-) s21m a) (\<lambda>num.
         ebind (py_get (e10e32 c) index) (\<lambda>den.
         ebind (cell_div num den) (\<lambda>s21. Inr (Re s21, Im s21))))))"

text \<open>
  The situation of the calibration identity: the three standards use the ideal models
  and every measured value of a standard equals the modelled value.
\<close>

definition ideal_measurement :: "calibration \<Rightarrow> bool" where
  "ideal_measurement c \<longleftrightarrow>
     useIdealShort c \<and> useIdealOpen c \<and> useIdealLoad c \<and>
     list_all (\<lambda>d. Complex (re d) (im d) = shortIdeal) (s11short c) \<and>
     list_all (\<lambda>d. Complex (re d) (im d) = openIdeal) (s11open c) \<and>
     list_all (\<lambda>d. Complex (re d) (im d) = loadIdeal) (s11load c)"

section \<open>SweepWorker.py: applying the calibration\<close>

text \<open>
  \<^verbatim>\<open>applyCalibration\<close> is the only caller of \<^verbatim>\<open>correct11\<close> and \<^verbatim>\<open>correct21\<close>. It calls
  \<^verbatim>\<open>correct11(dp)\<close> and \<^verbatim>\<open>correct21(dp)\<close> with the Datapoint as the only argument, where
  the methods of Calibration.py take three, \<^verbatim>\<open>(re, im, freq)\<close>: the interpreter cannot
  bind the arguments and raises TypeError before the body of the method runs.
  \<open>correct11_dp\<close> and \<open>correct21_dp\<close> are these two calls. \<^verbatim>\<open>correct_delay\<close> is
  imported from a part of Calibration.py that the sources do not hold, so it is a
  parameter.
\<close>

fun map_err :: "('a \<Rightarrow> error + 'b) \<Rightarrow> 'a list \<Rightarrow> error + 'b list" where
  "map_err f [] = Inr []"
| "map_err f (x # xs) = ebind (f x) (\<lambda>y. ebind (map_err f xs) (\<lambda>ys. Inr (y # ys)))"

definition correct11_dp :: "calibration \<Rightarrow> int datapoint \<Rightarrow> error + int datapoint" where
  "correct11_dp cal dp = Inl (TypeError BadCall)"

definition correct21_dp :: "calibration \<Rightarrow> int datapoint \<Rightarrow> error + int datapoint" where
  "correct21_dp cal dp = Inl (TypeError BadCall)"

definition applyCalibration ::
  "(int datapoint \<Rightarrow> real \<Rightarrow> bool \<Rightarrow> int datapoint) \<Rightarrow> real \<Rightarrow> calibration \<Rightarrow>
   int datapoint list \<Rightarrow> int datapoint list \<Rightarrow> error + int datapoint list \<times> int datapoint list"
where
  "applyCalibration correct_delay offsetDelay cal raw_data11 raw_data21 =
     (let raw11 = (if offsetDelay \<noteq> 0
                   then map (\<lambda>dp. correct_delay dp offsetDelay True) raw_data11
                   else raw_data11);
          raw21 = (if offsetDelay \<noteq> 0
                   then map (\<lambda>dp. correct_delay dp offsetDelay False) raw_data21
                   else raw_data21)
      in if \<not> isCalculated cal then Inr (raw11, raw21)
         else
           ebind (if isValid1Port cal then map_err (correct11_dp cal) raw11 else Inr raw11)
             (\<lambda>data11.
           ebind (if isValid2Port cal then map_err (correct21_dp cal) raw21 else Inr raw21)
             (\<lambda>data21. Inr (data11, data21))))"

text \<open>
  What the identity leaves in the error-term lists at an index (directivity 0, port match
  0, tracking -1), and the lists having one entry for each frequency of the short standard.
\<close>

definition terms_identity :: "calibration \<Rightarrow> nat \<Rightarrow> bool" where
  "terms_identity c j \<longleftrightarrow>
     e00 c ! j = PyComplex 0 \<and> e11 c ! j = PyComplex 0 \<and> deltaE c ! j = PyComplex (- 1)"

definition terms_sized :: "calibration \<Rightarrow> bool" where
  "terms_sized c \<longleftrightarrow>
     length (e00 c) = length (s11short c) \<and> length (e11 c) = length (s11short c) \<and>
     length (deltaE c) = length (s11short c)"

text \<open>An instance of that situation, with two frequencies.\<close>

definition ideal_two_points :: calibration where
  "ideal_two_points = Calibration\<lparr>
     s11short := [Datapoint 100 (- 1) 0, Datapoint 200 (- 1) 0],
     s11open := [Datapoint 100 1 0, Datapoint 200 1 0],
     s11load := [Datapoint 100 0 0, Datapoint 200 0 0]\<rparr>"

section \<open>Built-ins of the language used by the sources\<close>

text \<open>
  Strings are lists of 8-bit characters; the sources meet ASCII text only. \<^verbatim>\<open>str.isspace\<close>
  on ASCII: space, tab, line feed, vertical tab, form feed, carriage return and the four
  separators 0x1C to 0x1F.
\<close>

definition is_space :: "char \<Rightarrow> bool" where
  "is_space c \<longleftrightarrow> c \<in> set [CHR '' '', CHR 0x09, CHR 0x0A, CHR 0x0B, CHR 0x0C, CHR 0x0D,
                              CHR 0x1C, CHR 0x1D, CHR 0x1E, CHR 0x1F]"

definition strip :: "string \<Rightarrow> string" where
  "strip s = rev (dropWhile is_space (rev (dropWhile is_space s)))"

text \<open>\<^verbatim>\<open>s.split(sep)\<close> for a separator of one character: empty pieces are kept.\<close>

fun split_on :: "char \<Rightarrow> string \<Rightarrow> string list" where
  "split_on sep [] = [[]]"
| "split_on sep (x # xs) =
     (if x = sep then [] # split_on sep xs
      else (case split_on sep xs of
              w # ws \<Rightarrow> (x # w) # ws
            | [] \<Rightarrow> [[x]]))"

text \<open>
  \<^verbatim>\<open>int(s)\<close> on a string, base ten: surrounding whitespace is dropped, then an optional
  sign and decimal digits, where single underscores may stand between digits. Anything
  else is a ValueError (\<open>None\<close>).
\<close>

definition is_digit :: "char \<Rightarrow> bool" where
  "is_digit c \<longleftrightarrow> 48 \<le> (of_char c :: nat) \<and> (of_char c :: nat) \<le> 57"

definition digit_val :: "char \<Rightarrow> int" where
  "digit_val c = int (of_char c :: nat) - 48"

fun parse_digits :: "int \<Rightarrow> string \<Rightarrow> int option" where
  "parse_digits acc [] = Some acc"
| "parse_digits acc (c # cs) =
     (if is_digit c then parse_digits (10 * acc + digit_val c) cs
      else if c = CHR ''_'' then
        (case cs of
           [] \<Rightarrow> None
         | d # ds \<Rightarrow> if is_digit d then parse_digits acc cs else None)
      else None)"

definition py_nat :: "string \<Rightarrow> int option" where
  "py_nat s = (case s of [] \<Rightarrow> None | c # cs \<Rightarrow> if is_digit c then parse_digits 0 s else None)"

definition py_int :: "string \<Rightarrow> int option" where
  "py_int s =
     (case strip s of
        [] \<Rightarrow> None
      | c # cs \<Rightarrow>
          if c = CHR ''+'' then py_nat cs
          else if c = CHR ''-'' then map_option uminus (py_nat cs)
          else py_nat (c # cs))"

section \<open>Touchstone.py: the options line\<close>

text \<open>
  More built-ins: \<^verbatim>\<open>str.lower\<close> on ASCII, \<^verbatim>\<open>str.split()\<close> (pieces between runs of
  whitespace, none of them empty), \<^verbatim>\<open>str.startswith\<close>, the substring test
  \<^verbatim>\<open>p in s\<close> of two strings, and the lines of an \<^verbatim>\<open>io.StringIO\<close> (each ends with its
  line feed, but for the last one when the text does not end with one).
\<close>

definition lower_char :: "char \<Rightarrow> char" where
  "lower_char c =
     (if 65 \<le> (of_char c :: nat) \<and> (of_char c :: nat) \<le> 90
      then char_of ((of_char c :: nat) + 32) else c)"

definition lower :: "string \<Rightarrow> string" where
  "lower s = map lower_char s"

fun split_ws :: "string \<Rightarrow> string \<Rightarrow> string list" where
  "split_ws cur [] = (if cur = [] then [] else [cur])"
| "split_ws cur (c # cs) =
     (if is_space c then (if cur = [] then split_ws [] cs else cur # split_ws [] cs)
      else split_ws (cur @ [c]) cs)"

definition py_split :: "string \<Rightarrow> string list" where
  "py_split s = split_ws [] s"

definition startswith :: "string \<Rightarrow> string \<Rightarrow> bool" where
  "startswith s pre \<longleftrightarrow> take (length pre) s = pre"

definition is_substring :: "string \<Rightarrow> string \<Rightarrow> bool" where
  "is_substring p s \<longleftrightarrow> list_ex (\<lambda>k. take (length p) (drop k s) = p) [0..<Suc (length s)]"

fun lines_of :: "string \<Rightarrow> string \<Rightarrow> string list" where
  "lines_of cur [] = (if cur = [] then [] else [cur])"
| "lines_of cur (c # cs) =
     (if c = CHR 0x0A then (cur @ [c]) # lines_of [] cs else lines_of (cur @ [c]) cs)"

record options =
  factor :: int
  parameter :: string
  format :: string
  resistance :: int

definition UNIT_TO_FACTOR :: "(string \<times> int) list" where
  "UNIT_TO_FACTOR = [(''ghz'', 10 ^ 9), (''mhz'', 10 ^ 6), (''khz'', 10 ^ 3), (''hz'', 10 ^ 0)]"

text \<open>\<^verbatim>\<open>Options.__init__\<close>.\<close>

definition Options :: options where
  "Options = \<lparr>factor = 10 ^ 9, parameter = ''s'', format = ''ma'', resistance = 50\<rparr>"

text \<open>
  The \<^verbatim>\<open>for p in params\<close> loop of \<^verbatim>\<open>Options.parse\<close>. The four flags are \<^verbatim>\<open>pfact\<close>,
  \<^verbatim>\<open>pparam\<close>, \<^verbatim>\<open>pformat\<close> and \<^verbatim>\<open>presist\<close>; the branch for \<^verbatim>\<open>r\<close> takes the next
  token with \<^verbatim>\<open>next(params)\<close> (StopIteration when there is none) and leaves every flag
  as it is.
\<close>

fun parse_params :: "options \<Rightarrow> bool \<times> bool \<times> bool \<times> bool \<Rightarrow> string list \<Rightarrow> error + options" where
  "parse_params opt flags [] = Inr opt"
| "parse_params opt (pfact, pparam, pformat, presist) (p # ps) =
     (if p \<in> set [''ghz'', ''mhz'', ''khz'', ''hz''] \<and> \<not> pfact then
        (case map_of UNIT_TO_FACTOR p of
           None \<Rightarrow> Inl KeyError
         | Some fct \<Rightarrow> parse_params (opt\<lparr>factor := fct\<rparr>) (True, pparam, pformat, presist) ps)
      else if is_substring p ''syzgh'' \<and> \<not> pparam then
        parse_params (opt\<lparr>parameter := p\<rparr>) (pfact, True, pformat, presist) ps
      else if p \<in> set [''ma'', ''db'', ''ri''] \<and> \<not> pformat then
        parse_params (opt\<lparr>format := p\<rparr>) (pfact, pparam, True, presist) ps
      else if p = ''r'' \<and> \<not> presist then
        (case ps of
           [] \<Rightarrow> Inl StopIteration
         | v # rest \<Rightarrow>
             (case py_int v of
                None \<Rightarrow> Inl ValueError
              | Some n \<Rightarrow>
                  parse_params (opt\<lparr>resistance := n\<rparr>) (pfact, pparam, pformat, presist) rest))
      else Inl (TypeError IllegalOptionLine))"

definition parse :: "options \<Rightarrow> string \<Rightarrow> error + options" where
  "parse opt line =
     (if \<not> startswith line ''#'' then Inl (TypeError NotAnOptionLine)
      else parse_params opt (False, False, False, False) (py_split (lower (drop 1 line))))"

section \<open>Touchstone.py: the data lines\<close>

record touchstone =
  filename :: string
  sdata :: "real datapoint list list"
  comments :: "string list"
  opts :: options

text \<open>\<^verbatim>\<open>Touchstone.__init__\<close>.\<close>

definition Touchstone :: "string \<Rightarrow> touchstone" where
  "Touchstone name = \<lparr>filename = name, sdata = [[], [], [], []], comments = [], opts = Options\<rparr>"

text \<open>
  \<^verbatim>\<open>_parse_comments\<close>: takes lines from the file, collects those that start with
  \<^verbatim>\<open>!\<close> once stripped, and returns the first other line, stripped; at the end of the
  file it returns \<^verbatim>\<open>None\<close>. The result has the collected comments and the lines
  left in the file.
\<close>

fun parse_comments :: "string list \<Rightarrow> string list \<Rightarrow> string option \<times> string list \<times> string list" where
  "parse_comments [] cs = (None, cs, [])"
| "parse_comments (line # rest) cs =
     (if startswith (strip line) ''!'' then parse_comments rest (cs @ [strip line])
      else (Some (strip line), cs, rest))"

text \<open>
  The inner loop \<^verbatim>\<open>for v in vals\<close> of \<^verbatim>\<open>loads\<close>, for each format. Under \<^verbatim>\<open>ri\<close> the
  \<open>k\<close>-th pair goes to the \<open>k\<close>-th list of \<^verbatim>\<open>sdata\<close>, taken with \<^verbatim>\<open>next(data_list)\<close>
  (StopIteration when the lists are used up). Under \<^verbatim>\<open>ma\<close> the source calls
  \<^verbatim>\<open>cmath.polar\<close> with two arguments; the function takes one, so the call raises
  TypeError once both arguments are evaluated. Under \<^verbatim>\<open>db\<close> neither \<^verbatim>\<open>if\<close> of the
  loop body applies and the loop stores nothing.
\<close>

fun store_ri ::
  "(string \<Rightarrow> real option) \<Rightarrow> real \<Rightarrow> real datapoint list list \<Rightarrow> nat \<Rightarrow> string list
     \<Rightarrow> error + real datapoint list list"
where
  "store_ri pyfloat fr sd k [] = Inr sd"
| "store_ri pyfloat fr sd k [v] =
     (if k \<ge> length sd then Inl StopIteration
      else case pyfloat v of None \<Rightarrow> Inl ValueError | Some x \<Rightarrow> Inl StopIteration)"
| "store_ri pyfloat fr sd k (v # u # rest) =
     (if k \<ge> length sd then Inl StopIteration
      else case pyfloat v of
             None \<Rightarrow> Inl ValueError
           | Some x \<Rightarrow>
               (case pyfloat u of
                  None \<Rightarrow> Inl ValueError
                | Some y \<Rightarrow>
                    store_ri pyfloat fr (sd[k := sd ! k @ [Datapoint fr x y]]) (Suc k) rest))"

fun store_ma :: "(string \<Rightarrow> real option) \<Rightarrow> string list \<Rightarrow> error + unit" where
  "store_ma pyfloat [] = Inr ()"
| "store_ma pyfloat [v] =
     (case pyfloat v of None \<Rightarrow> Inl ValueError | Some x \<Rightarrow> Inl StopIteration)"
| "store_ma pyfloat (v # u # rest) =
     (case pyfloat v of
        None \<Rightarrow> Inl ValueError
      | Some x \<Rightarrow> (case pyfloat u of None \<Rightarrow> Inl ValueError | Some y \<Rightarrow> Inl (TypeError BadCall)))"

definition store_values ::
  "(string \<Rightarrow> real option) \<Rightarrow> string \<Rightarrow> real \<Rightarrow> real datapoint list list \<Rightarrow> string list
     \<Rightarrow> error + real datapoint list list"
where
  "store_values pyfloat fmt fr sd vals =
     (if fmt = ''ri'' then store_ri pyfloat fr sd 0 vals
      else if fmt = ''ma'' then ebind (store_ma pyfloat vals) (\<lambda>_. Inr sd)
      else Inr sd)"

text \<open>
  The loop \<^verbatim>\<open>for line in file\<close> of \<^verbatim>\<open>loads\<close>. Its state is \<^verbatim>\<open>prev_freq\<close>,
  \<^verbatim>\<open>prev_len\<close> and the lists of \<^verbatim>\<open>sdata\<close>.
\<close>

definition line_tokens :: "string \<Rightarrow> string list" where
  "line_tokens line = py_split (takeWhile (\<lambda>c. c \<noteq> CHR ''!'') line)"

fun loads_lines ::
  "(string \<Rightarrow> real option) \<Rightarrow> options \<Rightarrow> real \<times> nat \<Rightarrow> real datapoint list list \<Rightarrow> string list
     \<Rightarrow> error + real datapoint list list"
where
  "loads_lines pyfloat opt st sd [] = Inr sd"
| "loads_lines pyfloat opt (prev_freq, prev_len) sd (line # rest) =
     (if strip line = [] then loads_lines pyfloat opt (prev_freq, prev_len) sd rest
      else
        (case line_tokens line of
           [] \<Rightarrow> Inl IndexError
         | d0 # data \<Rightarrow>
             (case pyfloat d0 of
                None \<Rightarrow> Inl ValueError
              | Some f \<Rightarrow>
                  (let fr = f * real_of_int (factor opt);
                       data_len = length data
                   in if fr \<le> prev_freq then Inl (TypeError FrequencyNotAscending)
                      else
                        (let prev_len1 = (if prev_len = 0 then data_len else prev_len)
                         in if data_len mod 2 \<noteq> 0 then Inl (TypeError DataValuesNotPairs)
                            else if data_len \<noteq> prev_len1 then Inl (TypeError InconsistentPairs)
                            else
                              (case store_values pyfloat (format opt) fr sd data of
                                 Inl err \<Rightarrow> Inl err
                               | Inr sd1 \<Rightarrow>
                                   loads_lines pyfloat opt (fr, prev_len1) sd1 rest))))))"

definition loads :: "(string \<Rightarrow> real option) \<Rightarrow> touchstone \<Rightarrow> string \<Rightarrow> error + touchstone" where
  "loads pyfloat ts s =
     (case parse_comments (lines_of [] s) (comments ts) of
        (None, cs, rest) \<Rightarrow> Inl AttributeError
      | (Some opts_line, cs, rest) \<Rightarrow>
          (case parse (opts ts) opts_line of
             Inl err \<Rightarrow> Inl err
           | Inr opt \<Rightarrow>
               (case loads_lines pyfloat opt (0, 0) (sdata ts) rest of
                  Inl err \<Rightarrow> Inl err
                | Inr sd \<Rightarrow> Inr (ts\<lparr>comments := cs, opts := opt, sdata := sd\<rparr>))))"

text \<open>
  The three structural checks as the loop applies them, over the whole file. The data
  lines are the lines that are not blank; a data line has a frequency (its first token,
  scaled) when \<^verbatim>\<open>float\<close> accepts the token, and a number of values after it. The loop
  finds no violation when no data line's frequency is at or below the frequency of the
  data line before it (\<^verbatim>\<open>prev_freq\<close> is 0 before the first), every data line has an even
  number of values, and no data line's number of values differs from that of an earlier
  data line that has values: \<^verbatim>\<open>prev_len\<close> is 0 until a data line with values has been
  read, so a data line without values is compared with nothing.
\<close>

definition data_lines :: "string list \<Rightarrow> string list" where
  "data_lines ls = filter (\<lambda>line. strip line \<noteq> []) ls"

definition freq_of :: "(string \<Rightarrow> real option) \<Rightarrow> options \<Rightarrow> string \<Rightarrow> real option" where
  "freq_of pyfloat opt line =
     (case line_tokens line of
        [] \<Rightarrow> None
      | d0 # data \<Rightarrow> map_option (\<lambda>f. f * real_of_int (factor opt)) (pyfloat d0))"

definition count_of :: "string \<Rightarrow> nat" where
  "count_of line = length (line_tokens line) - 1"

definition ascends :: "real option \<Rightarrow> real option \<Rightarrow> bool" where
  "ascends a b = (case a of None \<Rightarrow> True | Some x \<Rightarrow> (case b of None \<Rightarrow> True | Some y \<Rightarrow> x < y))"

definition agrees :: "nat \<Rightarrow> nat \<Rightarrow> bool" where
  "agrees a b \<longleftrightarrow> a = 0 \<or> b = a"

definition no_violation :: "(string \<Rightarrow> real option) \<Rightarrow> options \<Rightarrow> real \<times> nat \<Rightarrow> string list \<Rightarrow> bool" where
  "no_violation pyfloat opt st ls \<longleftrightarrow>
     successively ascends (Some (fst st) # map (freq_of pyfloat opt) ls) \<and>
     list_all (\<lambda>line. even (count_of line)) ls \<and>
     sorted_wrt agrees (snd st # map count_of ls)"

definition structural :: "error \<Rightarrow> bool" where
  "structural e \<longleftrightarrow>
     e \<in> set [TypeError FrequencyNotAscending, TypeError DataValuesNotPairs,
              TypeError InconsistentPairs]"

text \<open>
  A data line that the loop can take in without an error of another kind: it has a
  first token that \<^verbatim>\<open>float\<close> accepts, and storing its values cannot raise. Under
  \<^verbatim>\<open>ri\<close> that is the case when \<^verbatim>\<open>float\<close> accepts every value and there is a list of
  \<^verbatim>\<open>sdata\<close> for every pair; under \<^verbatim>\<open>ma\<close> only when there is no value.
\<close>

definition storable_values :: "(string \<Rightarrow> real option) \<Rightarrow> string \<Rightarrow> nat \<Rightarrow> string list \<Rightarrow> bool" where
  "storable_values pyfloat fmt slots vals \<longleftrightarrow>
     (if fmt = ''ri'' then list_all (\<lambda>v. pyfloat v \<noteq> None) vals \<and> length vals \<le> 2 * slots
      else if fmt = ''ma'' then vals = []
      else True)"

definition storable :: "(string \<Rightarrow> real option) \<Rightarrow> string \<Rightarrow> nat \<Rightarrow> string \<Rightarrow> bool" where
  "storable pyfloat fmt slots line \<longleftrightarrow>
     (case line_tokens line of
        [] \<Rightarrow> False
      | d0 # vals \<Rightarrow> pyfloat d0 \<noteq> None \<and> storable_values pyfloat fmt slots vals)"

text \<open>A \<^verbatim>\<open>float\<close> for the examples: it knows the literals of three digits.\<close>

definition float_digits :: "string \<Rightarrow> real option" where
  "float_digits = map_of [(''0'', 0), (''1'', 1), (''2'', 2)]"

section \<open>SweepWorker.py: the state of the worker and of the instrument\<close>

text \<open>
  The instrument session. Its class is not among the sources; the worker uses
  \<^verbatim>\<open>connected()\<close>, \<^verbatim>\<open>validateInput\<close>, \<^verbatim>\<open>datapoints\<close>, \<^verbatim>\<open>setSweep\<close>, \<^verbatim>\<open>resetSweep\<close>,
  \<^verbatim>\<open>readFrequencies\<close> and \<^verbatim>\<open>readValues\<close>. The device is a sequence of replies: the
  \<open>k\<close>-th call of \<^verbatim>\<open>readValues\<close> (counted from 0 in \<open>reads\<close>) is answered by
  \<open>replies k\<close>, a list of lines. The commands sent are kept in \<open>commands\<close>.
\<close>

datatype command = SetSweep int int | ResetSweep int int

record vna =
  connected_vna :: bool
  validateInput :: bool
  datapoints :: int
  replies :: "nat \<Rightarrow> string list"
  reads :: nat
  commands :: "command list"

datatype signal = updated | finished | sweepError | fatalSweepError

record worker =
  vna :: vna
  sweep :: sweep
  percentage :: real
  data11 :: "int datapoint list"
  data21 :: "int datapoint list"
  rawData11 :: "int datapoint list"
  rawData21 :: "int datapoint list"
  stopped :: bool
  running :: bool
  continuousSweep :: bool
  averaging :: bool
  averages :: int
  truncates :: int
  error_message :: string
  offsetDelay :: real
  emitted :: "signal list"

record app =
  sweepStartInput :: string
  sweepEndInput :: string
  sweepCountInput :: string

section \<open>SweepWorker.py: trimmed averaging\<close>

text \<open>
  A list of repeated reads is a list (one entry for each repeat) of lists (one entry
  for each frequency bin) of pairs \<open>(re, im)\<close>. \<^verbatim>\<open>np.swapaxes(a, 0, 1)\<close> needs an array
  of two dimensions at least: the empty list and a list of rows of different lengths
  make an array of one dimension, and the call raises AxisError (a ValueError).
\<close>

definition rectangular :: "'a list list \<Rightarrow> bool" where
  "rectangular vs \<longleftrightarrow> list_all (\<lambda>row. length row = length (hd vs)) vs"

definition column :: "'a list list \<Rightarrow> nat \<Rightarrow> 'a list" where
  "column vs j = map (\<lambda>row. row ! j) vs"

definition swapaxes01 :: "'a list list \<Rightarrow> error + 'a list list" where
  "swapaxes01 vs =
     (if vs \<noteq> [] \<and> rectangular vs then Inr (map (column vs) [0..<length (hd vs)])
      else Inl AxisError)"

text \<open>\<^verbatim>\<open>np.average(valueset, 0)\<close> of a list of pairs: the mean of each component.\<close>

definition average_pairs :: "(real \<times> real) list \<Rightarrow> real \<times> real" where
  "average_pairs vs =
     (sum_list (map fst vs) / real (length vs), sum_list (map snd vs) / real (length vs))"

definition to_complex :: "real \<times> real \<Rightarrow> complex" where
  "to_complex v = Complex (fst v) (snd v)"

text \<open>The sort key of \<^verbatim>\<open>truncate\<close>: \<^verbatim>\<open>abs(a - complex(*v))\<close> with \<^verbatim>\<open>a\<close> the mean.\<close>

definition distance_to :: "complex \<Rightarrow> real \<times> real \<Rightarrow> real" where
  "distance_to a v = cmod (a - to_complex v)"

definition truncate :: "(real \<times> real) list list \<Rightarrow> int \<Rightarrow> error + (real \<times> real) list list" where
  "truncate values cnt =
     (let keep = int (length values) - cnt
      in if cnt < 1 \<or> keep < 1 then Inr values
         else
           ebind (swapaxes01 values) (\<lambda>valuesets.
             let truncated =
                   map (\<lambda>valueset.
                          let avg = to_complex (average_pairs valueset)
                          in take (nat keep) (sort_key (distance_to avg) valueset))
                       valuesets
             in swapaxes01 truncated))"

text \<open>
  \<^verbatim>\<open>np.average(val, 0).tolist()\<close> on the list of repeats: the mean over the repeats, for
  each bin. For no repeat at all numpy answers nan (\<open>NonFinite\<close>). For repeats without
  any bin the mean is an empty array and \<^verbatim>\<open>np.average\<close> divides the size of its
  argument by the size of the mean, 0 by 0 in Python integers: ZeroDivisionError. Rows
  of different lengths make an array of lists, whose sum cannot be divided (a
  TypeError).
\<close>

definition average0 :: "(real \<times> real) list list \<Rightarrow> error + (real \<times> real) list" where
  "average0 vals =
     (if vals = [] then Inl NonFinite
      else if rectangular vals then
        (if length (hd vals) = 0 then Inl ZeroDivisionError
         else Inr (map (\<lambda>j. average_pairs (column vals j)) [0..<length (hd vals)]))
      else Inl (TypeError BadOperand))"

text \<open>
  The post-processing of \<^verbatim>\<open>readAveragedSegment\<close> for one channel:
  \<^verbatim>\<open>np.average(truncate(val, self.truncates), 0).tolist()\<close>.
\<close>

definition trimmed_average :: "(real \<times> real) list list \<Rightarrow> int \<Rightarrow> error + (real \<times> real) list" where
  "trimmed_average vals t = ebind (truncate vals t) average0"


section \<open>SweepWorker.py: reading from the instrument\<close>


definition readValues :: "vna \<Rightarrow> vna \<times> string list" where
  "readValues v = (v\<lparr>reads := reads v + 1\<rparr>, replies v (reads v))"

definition setSweep :: "vna \<Rightarrow> int \<Rightarrow> int \<Rightarrow> vna" where
  "setSweep v s e = v\<lparr>commands := commands v @ [SetSweep s e]\<rparr>"

text \<open>
  The \<^verbatim>\<open>for d in tmpdata\<close> loop of \<^verbatim>\<open>readData\<close>; its state is \<^verbatim>\<open>done\<close> and
  \<^verbatim>\<open>returndata\<close>. \<^verbatim>\<open>a, b = d.split(" ")\<close> stands before the \<^verbatim>\<open>try\<close>: a line that is
  not two pieces raises ValueError out of \<^verbatim>\<open>readData\<close>. Inside the \<^verbatim>\<open>try\<close>, a piece
  that \<^verbatim>\<open>float\<close> rejects sets \<^verbatim>\<open>done = False\<close> and the loop goes on; a value beyond
  9.5, with validation on, sets \<^verbatim>\<open>done = False\<close> and leaves the loop. \<^verbatim>\<open>float\<close> is the
  parameter \<open>pyfloat\<close> (\<open>None\<close> for its ValueError).
\<close>

fun scan_values ::
  "(string \<Rightarrow> real option) \<Rightarrow> bool \<Rightarrow> string list \<Rightarrow> bool \<Rightarrow> (real \<times> real) list
     \<Rightarrow> error + bool \<times> (real \<times> real) list"
where
  "scan_values pyfloat validate [] done returndata = Inr (done, returndata)"
| "scan_values pyfloat validate (d # ds) done returndata =
     (case split_on CHR '' '' d of
        [a, b] \<Rightarrow>
          (case pyfloat a of
             None \<Rightarrow> scan_values pyfloat validate ds False returndata
           | Some x \<Rightarrow>
               if validate \<and> \<bar>x\<bar> > 9.5 then Inr (False, returndata)
               else
                 (case pyfloat b of
                    None \<Rightarrow> scan_values pyfloat validate ds False returndata
                  | Some y \<Rightarrow>
                      if validate \<and> \<bar>y\<bar> > 9.5 then Inr (False, returndata)
                      else scan_values pyfloat validate ds done (returndata @ [(x, y)])))
      | _ \<Rightarrow> Inl ValueError)"

text \<open>
  The \<^verbatim>\<open>while not done\<close> loop of \<^verbatim>\<open>readData\<close>, with the number \<open>cnt\<close> of failed
  attempts so far (\<^verbatim>\<open>count\<close> in the source). The loop ends: a failed attempt either raises at \<^verbatim>\<open>count >= 10\<close>
  or goes round with a larger \<^verbatim>\<open>count\<close>.
\<close>

function readData_loop ::
  "(string \<Rightarrow> real option) \<Rightarrow> vna \<Rightarrow> nat \<Rightarrow> vna \<times> (error + (real \<times> real) list)"
where
  "readData_loop pyfloat v cnt =
     (let (v1, tmpdata) = readValues v
      in case scan_values pyfloat (validateInput v1) tmpdata True [] of
           Inl err \<Rightarrow> (v1, Inl err)
         | Inr (done, returndata) \<Rightarrow>
             if \<not> done then
               (if cnt + 1 \<ge> 10 then (v1, Inl IOError)
                else readData_loop pyfloat v1 (cnt + 1))
             else (v1, Inr returndata))"
  by pat_completeness auto
termination
  by (relation "measure (\<lambda>(pyfloat, v, cnt). 10 - cnt)") auto

definition readData :: "(string \<Rightarrow> real option) \<Rightarrow> vna \<Rightarrow> vna \<times> (error + (real \<times> real) list)" where
  "readData pyfloat v = readData_loop pyfloat v 0"

text \<open>
  \<^verbatim>\<open>readSegment\<close>: set the range, read the frequencies, then the two channels.
\<close>

definition readSegment ::
  "(string \<Rightarrow> real option) \<Rightarrow> vna \<Rightarrow> int \<Rightarrow> int
     \<Rightarrow> vna \<times> (error + string list \<times> (real \<times> real) list \<times> (real \<times> real) list)"
where
  "readSegment pyfloat v s e =
     (let v1 = setSweep v s e;
          (v2, frequencies) = readValues v1;
          (v3, r11) = readData pyfloat v2
      in case r11 of
           Inl err \<Rightarrow> (v3, Inl err)
         | Inr values11 \<Rightarrow>
             (let (v4, r21) = readData pyfloat v3
              in case r21 of
                   Inl err \<Rightarrow> (v4, Inl err)
                 | Inr values21 \<Rightarrow>
                     if length frequencies \<noteq> length values11
                        \<or> length frequencies \<noteq> length values21
                     then (v4, Inr ([], [], []))
                     else (v4, Inr (frequencies, values11, values21))))"

section \<open>SweepWorker.py: the worker\<close>

text \<open>
  The \<^verbatim>\<open>for i in range(averages)\<close> loop of \<^verbatim>\<open>readAveragedSegment\<close>, by the number of
  repeats left; \<open>avgs\<close> is the argument \<^verbatim>\<open>averages\<close>. Nothing in the loop changes
  \<^verbatim>\<open>stopped\<close>.
\<close>

fun read_repeats ::
  "(string \<Rightarrow> real option) \<Rightarrow> int \<Rightarrow> int \<Rightarrow> int \<Rightarrow> nat \<Rightarrow> worker
     \<Rightarrow> string list \<times> (real \<times> real) list list \<times> (real \<times> real) list list
     \<Rightarrow> worker \<times> (error + string list \<times> (real \<times> real) list list \<times> (real \<times> real) list list)"
where
  "read_repeats pyfloat s e avgs 0 w acc = (w, Inr acc)"
| "read_repeats pyfloat s e avgs (Suc k) w (fr, val11, val21) =
     (if stopped w then (w, Inr (fr, val11, val21))
      else
        (let (v1, r) = readSegment pyfloat (vna w) s e;
             w1 = w\<lparr>vna := v1\<rparr>
         in case r of
              Inl err \<Rightarrow> (w1, Inl err)
            | Inr (fr1, tmp11, tmp21) \<Rightarrow>
                if sweeps (sweep w1) * avgs = 0 then (w1, Inl ZeroDivisionError)
                else
                  read_repeats pyfloat s e avgs k
                    (w1\<lparr>percentage := percentage w1
                                        + 100 / real_of_int (sweeps (sweep w1) * avgs),
                        emitted := emitted w1 @ [updated]\<rparr>)
                    (fr1, val11 @ [tmp11], val21 @ [tmp21])))"

definition readAveragedSegment ::
  "(string \<Rightarrow> real option) \<Rightarrow> worker \<Rightarrow> int \<Rightarrow> int \<Rightarrow> int
     \<Rightarrow> worker \<times> (error + string list \<times> (real \<times> real) list \<times> (real \<times> real) list)"
where
  "readAveragedSegment pyfloat w s e avgs =
     (case read_repeats pyfloat s e avgs (nat avgs) w ([], [], []) of
        (w1, Inl err) \<Rightarrow> (w1, Inl err)
      | (w1, Inr (fr, val11, val21)) \<Rightarrow>
          (w1, ebind (truncate val11 (truncates w1)) (\<lambda>t11.
               ebind (truncate val21 (truncates w1)) (\<lambda>t21.
               ebind (average0 t11) (\<lambda>return11.
               ebind (average0 t21) (\<lambda>return21.
               Inr (fr, return11, return21)))))))"

text \<open>
  \<^verbatim>\<open>run\<close>, up to the loop over the segments. \<^verbatim>\<open>parse_frequency\<close> comes from a module
  that is not among the sources and is a parameter; so is the loop over the segments
  (\<open>sweep_segments\<close>), which works on buffers of the application window. The two texts of
  the frequency fields and the text of the segment count are read from the window.
  An exception that \<^verbatim>\<open>run\<close> does not catch is returned beside the worker's state.
\<close>

definition run ::
  "(string \<Rightarrow> int) \<Rightarrow> (worker \<Rightarrow> sweep \<Rightarrow> worker \<times> error option) \<Rightarrow> app \<Rightarrow> worker
     \<Rightarrow> worker \<times> error option"
where
  "run parse_frequency sweep_segments a w0 =
     (let w = w0\<lparr>running := True, percentage := 0\<rparr>
      in if \<not> connected_vna (vna w) then (w\<lparr>running := False\<rparr>, None)
         else
           (case (case py_int (sweepCountInput a) of
                    None \<Rightarrow> Inl ValueError
                  | Some n \<Rightarrow>
                      Sweep (parse_frequency (sweepStartInput a))
                            (parse_frequency (sweepEndInput a)) (datapoints (vna w)) n) of
              Inl ValueError \<Rightarrow>
                (w\<lparr>error_message :=
                      ''Unable to parse frequency inputs - check start and stop fields.'',
                   stopped := True, running := False,
                   emitted := emitted w @ [sweepError]\<rparr>, None)
            | Inl err \<Rightarrow> (w, Some err)
            | Inr sw \<Rightarrow> sweep_segments w sw))"

text \<open>
  The words of the retry claim, for one reply of the device: a line gives a pair when
  it is two pieces that \<^verbatim>\<open>float\<close> accepts; a reply is valid when every line gives a
  pair within the bound 9.5, and out of bound when every line gives a pair and one pair
  has a component beyond the bound.
\<close>

definition parse_pair :: "(string \<Rightarrow> real option) \<Rightarrow> string \<Rightarrow> (real \<times> real) option" where
  "parse_pair pyfloat d =
     (case split_on CHR '' '' d of
        [a, b] \<Rightarrow>
          (case pyfloat a of
             None \<Rightarrow> None
           | Some x \<Rightarrow> (case pyfloat b of None \<Rightarrow> None | Some y \<Rightarrow> Some (x, y)))
      | _ \<Rightarrow> None)"

definition in_bounds :: "real \<times> real \<Rightarrow> bool" where
  "in_bounds p \<longleftrightarrow> \<bar>fst p\<bar> \<le> 9.5 \<and> \<bar>snd p\<bar> \<le> 9.5"

definition reply_valid :: "(string \<Rightarrow> real option) \<Rightarrow> string list \<Rightarrow> bool" where
  "reply_valid pyfloat r \<longleftrightarrow>
     list_all (\<lambda>d. case parse_pair pyfloat d of None \<Rightarrow> False | Some p \<Rightarrow> in_bounds p) r"

definition reply_out_of_bound :: "(string \<Rightarrow> real option) \<Rightarrow> string list \<Rightarrow> bool" where
  "reply_out_of_bound pyfloat r \<longleftrightarrow>
     list_all (\<lambda>d. parse_pair pyfloat d \<noteq> None) r \<and>
     list_ex (\<lambda>d. case parse_pair pyfloat d of None \<Rightarrow> False | Some p \<Rightarrow> \<not> in_bounds p) r"

definition reply_values :: "(string \<Rightarrow> real option) \<Rightarrow> string list \<Rightarrow> (real \<times> real) list" where
  "reply_values pyfloat r = List.map_filter (parse_pair pyfloat) r"

text \<open>
  A device for the retry claim: it answers the first \<open>n\<close> reads with a value out of
  bound and every later read with valid values. Its \<^verbatim>\<open>float\<close> knows the four literals.
\<close>

definition float_table :: "string \<Rightarrow> real option" where
  "float_table = map_of [(''10.0'', 10), (''0.5'', 1 / 2), (''0.25'', 1 / 4), (''0.0'', 0)]"

definition garbled_then_valid :: "nat \<Rightarrow> vna" where
  "garbled_then_valid n =
     \<lparr>connected_vna = True, validateInput = True, datapoints = 2,
      replies = (\<lambda>k. if k < n then [''0.5 0.25'', ''10.0 0.0''] else [''0.5 0.25'', ''0.0 0.5'']),
      reads = 0, commands = []\<rparr>"
text \<open>
  \<^verbatim>\<open>SweepWorker.__init__\<close>: the state of a new worker, with the session that
  \<^verbatim>\<open>setVNA\<close> gives it. \<^verbatim>\<open>Sweep()\<close> with its default arguments has step 264000.
\<close>

definition SweepWorker :: "vna \<Rightarrow> worker" where
  "SweepWorker v =
     \<lparr>vna = v,
      sweep = \<lparr>start = 3600000, end' = 30000000, points = 101, sweeps = 1,
               span = 26400000, step = 264000\<rparr>,
      percentage = 0, data11 = [], data21 = [], rawData11 = [], rawData21 = [],
      stopped = False, running = False, continuousSweep = False, averaging = False,
      averages = 3, truncates = 0, error_message = [], offsetDelay = 0, emitted = []\<rparr>"

text \<open>A session that is not connected, and a window with its fields filled in.\<close>

definition unplugged :: vna where
  "unplugged = \<lparr>connected_vna = False, validateInput = True, datapoints = 101,
                replies = (\<lambda>k. []), reads = 0, commands = []\<rparr>"

definition window :: app where
  "window = \<lparr>sweepStartInput = ''1000000'', sweepEndInput = ''2000000'',
             sweepCountInput = ''1''\<rparr>"



text \<open>The text of a file, from its lines.\<close>

definition file_text :: "string list \<Rightarrow> string" where
  "file_text ls = concat (map (\<lambda>l. l @ [CHR 0x0A]) ls)"

section \<open>Facts about the sweep plan\<close>

lemma int_of_float_quotient:
  assumes "0 \<le> a" and "0 < b"
  shows "int_of_float (real_of_int a / real_of_int b) = a div b"
proof -
  have "0 \<le> real_of_int a / real_of_int b"
    using assms by simp
  then show ?thesis
    by (simp add: int_of_float_def floor_divide_of_int_eq)
qed

lemma int_of_float_nonpos:
  assumes "a < 0" and "0 < b"
  shows "int_of_float (real_of_int a / real_of_int b) \<le> 0"
proof -
  have "real_of_int a / real_of_int b < 0"
    using assms by (simp add: divide_neg_pos)
  then have "\<lceil>real_of_int a / real_of_int b\<rceil> \<le> 0"
    by (simp add: ceiling_le_iff)
  then show ?thesis
    using \<open>real_of_int a / real_of_int b < 0\<close> by (simp add: int_of_float_def)
qed

lemma Sweep_InrD:
  assumes "Sweep s e p n = Inr sw" and "e - s < 2 ^ 53"
  shows "sw = \<lparr>start = s, end' = e, points = p, sweeps = n, span = e - s,
               step = (e - s) div (p * n - 1)\<rparr>"
    and "0 < p" and "0 < n" and "0 < s" and "0 < e" and "1 \<le> p * n - 1"
    and "1 \<le> (e - s) div (p * n - 1)" and "0 \<le> e - s"
proof -
  from assms(1) have d: "p * n - 1 \<noteq> 0"
    by (auto simp: Sweep_def stepsize_def split: if_splits)
  define st where "st = int_of_float (real_of_int (e - s) / real_of_int (p * n - 1))"
  define sw0 where
    "sw0 = \<lparr>start = s, end' = e, points = p, sweeps = n, span = e - s, step = st\<rparr>"
  from assms(1) d have chk: "check sw0 = Inr ()" and sw: "sw = sw0"
    by (auto simp: Sweep_def stepsize_def st_def sw0_def Let_def split: sum.splits if_splits)
  from chk have pos: "0 < n" "0 < p" "0 < s" "0 < e" "1 \<le> st"
    by (auto simp: check_def sw0_def split: if_splits)
  from pos have "0 < p * n"
    by (simp add: mult_pos_pos)
  with d have dpos: "1 \<le> p * n - 1" by linarith
  have nonneg: "0 \<le> e - s"
  proof (rule ccontr)
    assume "\<not> 0 \<le> e - s"
    then have "st \<le> 0"
      unfolding st_def using dpos by (intro int_of_float_nonpos) auto
    with pos show False by simp
  qed
  have st: "st = (e - s) div (p * n - 1)"
    unfolding st_def using nonneg dpos by (intro int_of_float_quotient) auto
  show "sw = \<lparr>start = s, end' = e, points = p, sweeps = n, span = e - s,
               step = (e - s) div (p * n - 1)\<rparr>"
    using sw st by (simp add: sw0_def)
  show "0 < p" "0 < n" "0 < s" "0 < e" "1 \<le> p * n - 1" "0 \<le> e - s"
    using pos dpos nonneg by auto
  show "1 \<le> (e - s) div (p * n - 1)"
    using pos st by simp
qed

text \<open>
  Claim C10. A plan with one point and one segment divides by zero in \<^verbatim>\<open>stepsize\<close>,
  which runs before \<^verbatim>\<open>check\<close>: the constructor raises ZeroDivisionError and not the
  ValueError of an illegal sweep setting, whatever the (positive) start and end are.
\<close>

theorem Sweep_one_point_one_segment:
  "stepsize (e - s) 1 1 = Inl ZeroDivisionError \<and> Sweep s e 1 1 = Inl ZeroDivisionError"
  by (simp add: Sweep_def stepsize_def)

text \<open>
  Claim C3, as the code has it. For every plan with a span \<open>end - start\<close> below
  \<open>2 ^ 53\<close> that constructs, the step is at least 1, the first segment starts at the
  plan's start, every segment starts one step after the end of the one before it (so
  the segments neither overlap nor leave a gap), and no segment is empty. The last
  segment ends at \<open>end - (end - start) mod (points * sweeps - 1)\<close>: never past the plan's
  end, and at the plan's end exactly when \<open>points * sweeps - 1\<close> divides the span.
\<close>

theorem sweep_segments_contiguous:
  assumes "Sweep s e p n = Inr sw" and "e - s < 2 ^ 53"
  shows "1 \<le> step sw
       \<and> fst (get_index_range sw 0) = s
       \<and> (\<forall>i. fst (get_index_range sw (i + 1)) = snd (get_index_range sw i) + step sw)
       \<and> (\<forall>i. fst (get_index_range sw i) \<le> snd (get_index_range sw i))
       \<and> snd (get_index_range sw (n - 1)) = e - (e - s) mod (p * n - 1)
       \<and> snd (get_index_range sw (n - 1)) \<le> e
       \<and> (snd (get_index_range sw (n - 1)) = e \<longleftrightarrow> (p * n - 1) dvd (e - s))"
proof -
  define d where "d = p * n - 1"
  define q where "q = (e - s) div d"
  note facts = Sweep_InrD [OF assms, folded d_def q_def]
  have sw: "start sw = s" "points sw = p" "step sw = q"
    using facts(1) by simp_all
  have q1: "1 \<le> q" and p1: "1 \<le> p" and d1: "1 \<le> d"
    using facts by simp_all
  have first: "fst (get_index_range sw 0) = s"
    by (simp add: get_index_range_def sw)
  have next_seg: "fst (get_index_range sw (i + 1)) = snd (get_index_range sw i) + step sw" for i
    by (simp add: get_index_range_def sw Let_def algebra_simps)
  have nonempty: "fst (get_index_range sw i) \<le> snd (get_index_range sw i)" for i
    using q1 p1 by (simp add: get_index_range_def sw Let_def)
  have "snd (get_index_range sw (n - 1)) = s + d * q"
    by (simp add: get_index_range_def sw Let_def d_def algebra_simps)
  also have "d * q = (e - s) - (e - s) mod d"
    unfolding q_def by (simp add: minus_mod_eq_mult_div [symmetric])
  finally have last: "snd (get_index_range sw (n - 1)) = e - (e - s) mod d"
    by simp
  have "0 \<le> (e - s) mod d"
    using d1 by simp
  with last have le: "snd (get_index_range sw (n - 1)) \<le> e"
    by simp
  have iff: "snd (get_index_range sw (n - 1)) = e \<longleftrightarrow> d dvd (e - s)"
    using last by (auto simp: dvd_eq_mod_eq_0)
  show ?thesis
    using q1 first next_seg nonempty last le iff unfolding sw d_def by blast
qed

theorem sweep_segments_contiguous_witness:
  "Sweep 1 12 2 2 = Inr \<lparr>start = 1, end' = 12, points = 2, sweeps = 2, span = 11, step = 3\<rparr>
   \<and> get_index_range \<lparr>start = 1, end' = 12, points = 2, sweeps = 2, span = 11, step = 3\<rparr> 0
       = (1, 4)
   \<and> get_index_range \<lparr>start = 1, end' = 12, points = 2, sweeps = 2, span = 11, step = 3\<rparr> 1
       = (7, 10)
   \<and> snd (get_index_range
        \<lparr>start = 1, end' = 12, points = 2, sweeps = 2, span = 11, step = 3\<rparr> (2 - 1))
       = 12 - (12 - 1) mod (2 * 2 - 1)
   \<and> (12 :: int) - 1 < 2 ^ 53"
proof -
  have c: "Sweep 1 12 2 2
      = Inr \<lparr>start = 1, end' = 12, points = 2, sweeps = 2, span = 11, step = 3\<rparr>"
    by (simp add: Sweep_def stepsize_def check_def int_of_float_def)
  have b: "(12 :: int) - 1 < 2 ^ 53"
    by simp
  from sweep_segments_contiguous [OF c b] show ?thesis
    using c by (simp add: get_index_range_def)
qed

text \<open>
  The claim as the specification words it fails: the plan from 1 to 12 with two points
  in each of two segments has step 3 and segments (1, 4) and (7, 10); its last segment
  ends at 10, not at the plan's end 12.
\<close>

theorem sweep_last_segment_counterexample:
  "Sweep 1 12 2 2 = Inr \<lparr>start = 1, end' = 12, points = 2, sweeps = 2, span = 11, step = 3\<rparr>
   \<and> snd (get_index_range
        \<lparr>start = 1, end' = 12, points = 2, sweeps = 2, span = 11, step = 3\<rparr> (2 - 1))
       \<noteq> end' \<lparr>start = 1, end' = 12, points = 2, sweeps = 2, span = 11, step = 3\<rparr>"
  by (simp add: Sweep_def stepsize_def check_def int_of_float_def get_index_range_def)

section \<open>Facts about the calibration model\<close>

lemma ideal_consts: "shortIdeal = -1" "openIdeal = 1" "loadIdeal = 0"
  by (simp_all add: shortIdeal_def openIdeal_def loadIdeal_def complex_eq_iff)

lemma models_ideal:
  "useIdealShort c \<Longrightarrow> short_model c f = (False, -1)"
  "useIdealOpen c \<Longrightarrow> open_model c f = (False, 1)"
  "useIdealLoad c \<Longrightarrow> load_model c f = Inr 0"
  by (simp_all add: short_model_def open_model_def load_model_def ideal_consts)

lemma calc_index_ideal:
  assumes "useIdealShort c" "useIdealOpen c" "useIdealLoad c"
    and "Complex (re (s11short c ! i)) (im (s11short c ! i)) = -1"
    and "i < length (s11open c)" "Complex (re (s11open c ! i)) (im (s11open c ! i)) = 1"
    and "i < length (s11load c)" "Complex (re (s11load c ! i)) (im (s11load c ! i)) = 0"
  shows "calc_index c i =
     two_port_terms (c\<lparr>frequencies := (frequencies c)[i := Some (freq (s11short c ! i))],
        e00 := (e00 c)[i := PyComplex 0], e11 := (e11 c)[i := PyComplex 0],
        deltaE := (deltaE c)[i := PyComplex (- 1)]\<rparr>) i False 0"
  using assms
  by (simp add: calc_index_def models_ideal py_get_def mk_cell_def Let_def)

lemma calc_index_short_of_data:
  assumes "useIdealLoad c" "\<not> (i < length (s11open c) \<and> i < length (s11load c))"
  shows "calc_index c i \<noteq> Next c'"
  using assms
  by (auto simp: calc_index_def models_ideal py_get_def Let_def split: prod.splits)

lemma two_port_terms_Next:
  assumes "two_port_terms c i b z = Next c'"
  shows "e00 c' = e00 c" "e11 c' = e11 c" "deltaE c' = deltaE c"
    "s11short c' = s11short c" "s11open c' = s11open c" "s11load c' = s11load c"
    "useIdealShort c' = useIdealShort c" "useIdealOpen c' = useIdealOpen c"
    "useIdealLoad c' = useIdealLoad c"
  using assms
  by (auto simp: two_port_terms_def Let_def split: if_splits sum.splits)

lemma calc_index_Next_ideal:
  assumes nxt: "calc_index c i = Next c'"
    and ideal: "ideal_measurement c" and i: "i < length (s11short c)"
  shows "e00 c' = (e00 c)[i := PyComplex 0]" "e11 c' = (e11 c)[i := PyComplex 0]"
    "deltaE c' = (deltaE c)[i := PyComplex (- 1)]"
    "s11short c' = s11short c" "ideal_measurement c'"
proof -
  from ideal have flags: "useIdealShort c" "useIdealOpen c" "useIdealLoad c"
    by (simp_all add: ideal_measurement_def)
  from nxt flags(3) have len: "i < length (s11open c)" "i < length (s11load c)"
    using calc_index_short_of_data [of c i c'] by auto
  from ideal i len
  have gm: "Complex (re (s11short c ! i)) (im (s11short c ! i)) = -1"
    "Complex (re (s11open c ! i)) (im (s11open c ! i)) = 1"
    "Complex (re (s11load c ! i)) (im (s11load c ! i)) = 0"
    by (simp_all add: ideal_measurement_def list_all_length ideal_consts)
  note tp = two_port_terms_Next [OF nxt [unfolded calc_index_ideal [OF flags gm(1) len(1) gm(2) len(2) gm(3)]]]
  show "e00 c' = (e00 c)[i := PyComplex 0]" "e11 c' = (e11 c)[i := PyComplex 0]"
    "deltaE c' = (deltaE c)[i := PyComplex (- 1)]" "s11short c' = s11short c"
    using tp by simp_all
  show "ideal_measurement c'"
    using tp ideal by (simp add: ideal_measurement_def)
qed

lemma calc_loop_ideal:
  assumes "calc_loop c js = Next c'" and "ideal_measurement c" and "terms_sized c"
    and "\<forall>j\<in>set js. j < length (s11short c)"
  shows "s11short c' = s11short c \<and> terms_sized c' \<and>
         (\<forall>j. j \<in> set js \<or> terms_identity c j \<longrightarrow> terms_identity c' j)"
  using assms
proof (induction js arbitrary: c)
  case Nil
  then show ?case by simp
next
  case (Cons i rest)
  from Cons.prems(1) obtain c1 where c1: "calc_index c i = Next c1"
    and rest: "calc_loop c1 rest = Next c'"
    by (auto split: flow.splits)
  from Cons.prems(4) have i: "i < length (s11short c)" by simp
  note st = calc_index_Next_ideal [OF c1 Cons.prems(2) i]
  have sized: "terms_sized c1"
    using Cons.prems(3) st by (simp add: terms_sized_def)
  have bound: "\<forall>j\<in>set rest. j < length (s11short c1)"
    using Cons.prems(4) st by simp
  from Cons.IH [OF rest st(5) sized bound]
  have ih: "s11short c' = s11short c1" "terms_sized c'"
    "\<And>j. j \<in> set rest \<or> terms_identity c1 j \<Longrightarrow> terms_identity c' j"
    by blast+
  have at_i: "terms_identity c1 i"
    using st i Cons.prems(3) by (simp add: terms_identity_def terms_sized_def)
  have keep: "terms_identity c1 j" if "terms_identity c j" for j
  proof (cases "j = i")
    case True
    then show ?thesis using at_i by simp
  next
    case False
    then show ?thesis
      using that st(1,2,3) by (simp add: terms_identity_def)
  qed
  show ?case
    using ih st(4) at_i keep by auto
qed

lemma nearest_step_range: "fst (foldl (nearest_step xs f) st js) \<in> insert (fst st) (set js)"
proof (induction js arbitrary: st)
  case Nil
  then show ?case by simp
next
  case (Cons j js)
  have "fst (nearest_step xs f st j) \<in> {fst st, j}"
    by (simp add: nearest_step_def)
  with Cons [of "nearest_step xs f st j"] show ?case
    by auto
qed

lemma nearest_index_less:
  assumes "xs \<noteq> []"
  shows "nearest_index xs f < length xs"
  using nearest_step_range [of xs f "(0, 10 ^ 10)" "[0..<length xs]"] assms
  by (auto simp: nearest_index_def)

lemma correct11_identity_terms:
  assumes "terms_identity c (nearest_index (s11short c) f)" and "terms_sized c"
    and "s11short c \<noteq> []"
  shows "correct11 c r i f = Inr (r, i)"
proof -
  define k where "k = nearest_index (s11short c) f"
  have k: "k < length (s11short c)"
    unfolding k_def using assms(3) by (rule nearest_index_less)
  from assms(1) have t: "e00 c ! k = PyComplex 0" "e11 c ! k = PyComplex 0"
     "deltaE c ! k = PyComplex (- 1)"
    by (simp_all add: terms_identity_def k_def)
  from assms(2) k have g: "py_get (e00 c) k = Inr (PyComplex 0)"
    "py_get (e11 c) k = Inr (PyComplex 0)" "py_get (deltaE c) k = Inr (PyComplex (- 1))"
    by (simp_all add: py_get_def terms_sized_def t)
  show ?thesis
    by (simp add: correct11_def k_def [symmetric] g ebind_def)
qed

text \<open>
  Claim C1. With ideal models for the short, open and load standards and every measured
  standard value equal to its modelled value at every index, once
  \<^verbatim>\<open>calculateCorrections\<close> has returned \<^verbatim>\<open>True\<close> the correction \<^verbatim>\<open>correct11\<close> returns
  every sample \<open>(re, im)\<close> unchanged, at every frequency.
\<close>

theorem calibration_identity:
  assumes "ideal_measurement c" and "calculateCorrections c = (c', Inr (Some True))"
  shows "correct11 c' r i f = Inr (r, i)"
proof -
  define n where "n = length (s11short c)"
  define c1 where "c1 = c\<lparr>frequencies := replicate n None,
                   e00 := replicate n Unset, e11 := replicate n Unset,
                   deltaE := replicate n Unset, e30 := replicate n Unset,
                   e10e32 := replicate n Unset\<rparr>"
  from assms(2) have valid: "isValid1Port c"
    by (auto simp: calculateCorrections_def split: if_splits)
  with assms(2) obtain c2 where loop: "calc_loop c1 [0..<n] = Next c2"
    and c': "c' = c2\<lparr>isCalculated := True\<rparr>"
    by (auto simp: calculateCorrections_def Let_def c1_def n_def split: flow.splits)
  have 1: "ideal_measurement c1"
    using assms(1) by (simp add: ideal_measurement_def c1_def)
  have 2: "terms_sized c1"
    by (simp add: terms_sized_def c1_def n_def)
  have 3: "\<forall>j\<in>set [0..<n]. j < length (s11short c1)"
    by (simp add: c1_def n_def)
  from calc_loop_ideal [OF loop 1 2 3]
  have r: "s11short c2 = s11short c1" "terms_sized c2" "\<And>j. j < n \<Longrightarrow> terms_identity c2 j"
    by auto
  have ne: "s11short c' \<noteq> []" and len: "length (s11short c') = n"
    using valid r(1) by (auto simp: c' c1_def isValid1Port_def n_def)
  have "nearest_index (s11short c') f < n"
    using nearest_index_less [OF ne] len by simp
  then have "terms_identity c' (nearest_index (s11short c') f)"
    using r(3) by (simp add: c' terms_identity_def)
  moreover have "terms_sized c'"
    using r(2) by (simp add: c' terms_sized_def)
  ultimately show ?thesis
    using ne by (rule correct11_identity_terms)
qed

lemma ideal_two_points_measurement: "ideal_measurement ideal_two_points"
    by (simp add: ideal_measurement_def Calibration_def ideal_two_points_def shortIdeal_def openIdeal_def loadIdeal_def)


lemma upt_two: "[0..<2] = [0, Suc 0]"
  by (simp add: upt_rec numeral_2_eq_2)

lemma ideal_two_points_calculated: "snd (calculateCorrections ideal_two_points) = Inr (Some True)"
  by (simp add: calculateCorrections_def ideal_two_points_def Calibration_def isValid1Port_def isValid2Port_def Let_def
     upt_two calc_index_def two_port_terms_def short_model_def open_model_def load_model_def py_get_def
     mk_cell_def shortIdeal_def openIdeal_def loadIdeal_def complex_eq_iff)

theorem calibration_identity_witness:
  "ideal_measurement ideal_two_points \<and> snd (calculateCorrections ideal_two_points) = Inr (Some True) \<and>
   correct11 (fst (calculateCorrections ideal_two_points)) (1 / 2) (1 / 4) 150 = Inr (1 / 2, 1 / 4)"
proof -
  have "calculateCorrections ideal_two_points = (fst (calculateCorrections ideal_two_points), Inr (Some True))"
    using ideal_two_points_calculated by (metis prod.collapse)
  from calibration_identity [OF ideal_two_points_measurement this] show ?thesis
    using ideal_two_points_measurement ideal_two_points_calculated by simp
qed


text \<open>
  Claim C2 fails for \<^verbatim>\<open>correct11\<close> itself, which never looks at \<^verbatim>\<open>isCalculated\<close>: on a
  fresh calibration (not calculated, no error terms) it raises IndexError at
  \<^verbatim>\<open>self.e00[index]\<close> instead of returning the sample.
\<close>

theorem correct11_unguarded_counterexample:
  "isCalculated Calibration = False \<and> e00 Calibration = []
   \<and> correct11 Calibration (1 / 2) (1 / 4) 1000000 = Inl IndexError"
  by (simp add: Calibration_def correct11_def nearest_index_def py_get_def ebind_def)

text \<open>
  Claim C2, as the code has it. The guard is in the caller: with no offset delay,
  \<^verbatim>\<open>applyCalibration\<close> returns the raw samples of both channels unchanged when
  \<^verbatim>\<open>isCalculated\<close> is false, and also when the one-port standards are not all present;
  in both cases \<^verbatim>\<open>correct11\<close> is not called. The result of \<^verbatim>\<open>correct11\<close> itself does
  not depend on \<^verbatim>\<open>isCalculated\<close>.
\<close>

theorem applyCalibration_guard:
  "(\<not> isCalculated cal \<longrightarrow>
      applyCalibration correct_delay 0 cal raw11 raw21 = Inr (raw11, raw21))
   \<and> (\<not> isValid1Port cal \<longrightarrow>
      applyCalibration correct_delay 0 cal raw11 raw21 = Inr (raw11, raw21))
   \<and> correct11 (cal\<lparr>isCalculated := b\<rparr>) r i f = correct11 cal r i f"
  by (simp add: applyCalibration_def isValid2Port_def ebind_def correct11_def)

theorem applyCalibration_guard_witness:
  "\<not> isCalculated Calibration \<and> \<not> isValid1Port Calibration
   \<and> applyCalibration (\<lambda>dp d reflect. dp) 0 Calibration
        [Datapoint 1000000 (1 / 2) (1 / 4)] [Datapoint 1000000 0 1]
      = Inr ([Datapoint 1000000 (1 / 2) (1 / 4)], [Datapoint 1000000 0 1])"
  using applyCalibration_guard [of Calibration "\<lambda>dp d reflect. dp"
      "[Datapoint 1000000 (1 / 2) (1 / 4)]" "[Datapoint 1000000 0 1]"]
  by (simp add: Calibration_def isValid1Port_def)

section \<open>Facts about reading from the instrument\<close>

lemma scan_values_valid:
  assumes "reply_valid pyfloat r"
  shows "scan_values pyfloat val r dn acc = Inr (dn, acc @ reply_values pyfloat r)"
  using assms
proof (induction r arbitrary: acc)
  case Nil
  then show ?case by (simp add: reply_values_def List.map_filter_simps)
next
  case (Cons d r)
  from Cons.prems obtain p where p: "parse_pair pyfloat d = Some p" "in_bounds p"
    and r: "reply_valid pyfloat r"
    by (auto simp: reply_valid_def split: option.splits)
  from p(1) obtain a b where ab: "split_on CHR '' '' d = [a, b]"
    "pyfloat a = Some (fst p)" "pyfloat b = Some (snd p)"
    by (auto simp: parse_pair_def split: list.splits option.splits)
  have bounds: "\<not> \<bar>fst p\<bar> > 9.5" "\<not> \<bar>snd p\<bar> > 9.5"
    using p(2) by (simp_all add: in_bounds_def)
  have "scan_values pyfloat val (d # r) dn acc
          = scan_values pyfloat val r dn (acc @ [p])"
    using ab bounds by simp
  also have "\<dots> = Inr (dn, (acc @ [p]) @ reply_values pyfloat r)"
    using r by (rule Cons.IH)
  finally show ?case
    using p(1) by (simp add: reply_values_def List.map_filter_simps)
qed

lemma scan_values_out_of_bound:
  assumes "list_all (\<lambda>d. parse_pair pyfloat d \<noteq> None) r"
    and "list_ex (\<lambda>d. case parse_pair pyfloat d of None \<Rightarrow> False | Some p \<Rightarrow> \<not> in_bounds p) r"
  shows "\<exists>rd. scan_values pyfloat True r dn acc = Inr (False, rd)"
  using assms
proof (induction r arbitrary: acc)
  case Nil
  then show ?case by simp
next
  case (Cons d r)
  from Cons.prems(1) obtain p where p: "parse_pair pyfloat d = Some p"
    and r: "list_all (\<lambda>d. parse_pair pyfloat d \<noteq> None) r"
    by auto
  from p obtain a b where ab: "split_on CHR '' '' d = [a, b]"
    "pyfloat a = Some (fst p)" "pyfloat b = Some (snd p)"
    by (auto simp: parse_pair_def split: list.splits option.splits)
  show ?case
  proof (cases "in_bounds p")
    case True
    with Cons.prems(2) p
    have ex: "list_ex (\<lambda>d. case parse_pair pyfloat d of None \<Rightarrow> False | Some p \<Rightarrow> \<not> in_bounds p) r"
      by simp
    have bounds: "\<not> \<bar>fst p\<bar> > 9.5" "\<not> \<bar>snd p\<bar> > 9.5"
      using True by (simp_all add: in_bounds_def)
    have "scan_values pyfloat True (d # r) dn acc = scan_values pyfloat True r dn (acc @ [p])"
      using ab bounds by simp
    with Cons.IH [OF r ex] show ?thesis by simp
  next
    case False
    then have "\<bar>fst p\<bar> > 9.5 \<or> \<bar>snd p\<bar> > 9.5"
      by (auto simp: in_bounds_def)
    then have "scan_values pyfloat True (d # r) dn acc = Inr (False, acc)"
      using ab by auto
    then show ?thesis by simp
  qed
qed

lemma readData_loop_valid:
  assumes "reply_valid pyfloat (replies v (reads v))"
  shows "readData_loop pyfloat v cnt
           = (v\<lparr>reads := reads v + 1\<rparr>, Inr (reply_values pyfloat (replies v (reads v))))"
  by (subst readData_loop.simps)
     (simp add: readValues_def scan_values_valid [OF assms])

lemma readData_loop_out_of_bound:
  assumes "reply_out_of_bound pyfloat (replies v (reads v))" and "validateInput v"
  shows "readData_loop pyfloat v cnt =
           (if cnt + 1 \<ge> 10 then (v\<lparr>reads := reads v + 1\<rparr>, Inl IOError)
            else readData_loop pyfloat (v\<lparr>reads := reads v + 1\<rparr>) (cnt + 1))"
proof -
  from assms(1) obtain rd where
    "scan_values pyfloat True (replies v (reads v)) True [] = Inr (False, rd)"
    using scan_values_out_of_bound [of pyfloat "replies v (reads v)" True "[]"]
    by (auto simp: reply_out_of_bound_def)
  then show ?thesis
    using assms(2) by (subst readData_loop.simps) (simp add: readValues_def)
qed

lemma readData_loop_retry:
  assumes "validateInput v" and "cnt + m < 10"
    and "\<forall>k<m. reply_out_of_bound pyfloat (replies v (reads v + k))"
    and "reply_valid pyfloat (replies v (reads v + m))"
  shows "readData_loop pyfloat v cnt
           = (v\<lparr>reads := reads v + m + 1\<rparr>,
              Inr (reply_values pyfloat (replies v (reads v + m))))"
  using assms
proof (induction m arbitrary: v cnt)
  case 0
  then show ?case
    using readData_loop_valid [of pyfloat v cnt] by simp
next
  case (Suc m)
  define v1 where "v1 = v\<lparr>reads := reads v + 1\<rparr>"
  from Suc.prems(3) have first: "reply_out_of_bound pyfloat (replies v (reads v))"
    by (metis add.right_neutral zero_less_Suc)
  have step: "readData_loop pyfloat v cnt = readData_loop pyfloat v1 (cnt + 1)"
    using readData_loop_out_of_bound [OF first Suc.prems(1), of cnt] Suc.prems(2)
    by (simp add: v1_def)
  have a: "validateInput v1" "cnt + 1 + m < 10"
    using Suc.prems(1,2) by (simp_all add: v1_def)
  have b: "\<forall>k<m. reply_out_of_bound pyfloat (replies v1 (reads v1 + k))"
    using Suc.prems(3) by (auto simp: v1_def)
  have c: "reply_valid pyfloat (replies v1 (reads v1 + m))"
    using Suc.prems(4) by (simp add: v1_def)
  show ?case
    unfolding step using Suc.IH [OF a b c] by (simp add: v1_def)
qed

lemma readData_loop_give_up:
  assumes "validateInput v" and "cnt + m = 10" and "0 < m"
    and "\<forall>k<m. reply_out_of_bound pyfloat (replies v (reads v + k))"
  shows "readData_loop pyfloat v cnt = (v\<lparr>reads := reads v + m\<rparr>, Inl IOError)"
  using assms
proof (induction m arbitrary: v cnt)
  case 0
  then show ?case by simp
next
  case (Suc m)
  define v1 where "v1 = v\<lparr>reads := reads v + 1\<rparr>"
  from Suc.prems(4) have first: "reply_out_of_bound pyfloat (replies v (reads v))"
    by (metis add.right_neutral zero_less_Suc)
  note unfold = readData_loop_out_of_bound [OF first Suc.prems(1), of cnt, folded v1_def]
  show ?case
  proof (cases "m = 0")
    case True
    with Suc.prems(2) unfold show ?thesis
      by (simp add: v1_def)
  next
    case False
    with Suc.prems(2) unfold
    have step: "readData_loop pyfloat v cnt = readData_loop pyfloat v1 (cnt + 1)"
      by simp
    have a: "validateInput v1" "cnt + 1 + m = 10" "0 < m"
      using Suc.prems(1,2) False by (simp_all add: v1_def)
    have b: "\<forall>k<m. reply_out_of_bound pyfloat (replies v1 (reads v1 + k))"
      using Suc.prems(4) by (auto simp: v1_def)
    show ?thesis
      unfolding step using Suc.IH [OF a b] by (simp add: v1_def)
  qed
qed

text \<open>
  Claim C8. With validation on, a reply with a component beyond 9.5 leaves the scan
  with \<^verbatim>\<open>done = False\<close>, so the whole channel is read again. When the first \<open>m\<close>
  replies are out of bound, for any \<open>m\<close> up to 9, and the next one is valid,
  \<^verbatim>\<open>readData\<close> returns the values of that valid reply after \<open>m + 1\<close> reads; with
  \<open>m = 9\<close> that is the tenth attempt. When the first ten replies are out of bound,
  \<^verbatim>\<open>readData\<close> raises IOError after the tenth read.
\<close>

theorem readData_retry:
  assumes "validateInput v"
  shows "(reply_out_of_bound pyfloat r
            \<longrightarrow> (\<exists>rd. scan_values pyfloat True r True [] = Inr (False, rd)))
       \<and> (m < 10 \<and> (\<forall>k<m. reply_out_of_bound pyfloat (replies v (reads v + k)))
            \<and> reply_valid pyfloat (replies v (reads v + m))
            \<longrightarrow> readData pyfloat v
                  = (v\<lparr>reads := reads v + m + 1\<rparr>,
                     Inr (reply_values pyfloat (replies v (reads v + m)))))
       \<and> ((\<forall>k<10. reply_out_of_bound pyfloat (replies v (reads v + k)))
            \<longrightarrow> readData pyfloat v = (v\<lparr>reads := reads v + 10\<rparr>, Inl IOError))"
proof (intro conjI impI)
  assume "reply_out_of_bound pyfloat r"
  then show "\<exists>rd. scan_values pyfloat True r True [] = Inr (False, rd)"
    using scan_values_out_of_bound [of pyfloat r True "[]"]
    by (simp add: reply_out_of_bound_def)
next
  assume "m < 10 \<and> (\<forall>k<m. reply_out_of_bound pyfloat (replies v (reads v + k)))
            \<and> reply_valid pyfloat (replies v (reads v + m))"
  then show "readData pyfloat v
      = (v\<lparr>reads := reads v + m + 1\<rparr>, Inr (reply_values pyfloat (replies v (reads v + m))))"
    unfolding readData_def using assms by (intro readData_loop_retry) auto
next
  assume "\<forall>k<10. reply_out_of_bound pyfloat (replies v (reads v + k))"
  then show "readData pyfloat v = (v\<lparr>reads := reads v + 10\<rparr>, Inl IOError)"
    unfolding readData_def using assms by (intro readData_loop_give_up) auto
qed

lemma float_table_pairs:
  "parse_pair float_table ''0.5 0.25'' = Some (1 / 2, 1 / 4)"
  "parse_pair float_table ''10.0 0.0'' = Some (10, 0)"
  "parse_pair float_table ''0.0 0.5'' = Some (0, 1 / 2)"
  by (simp_all add: parse_pair_def float_table_def)

lemma garbled_replies:
  "k < n \<Longrightarrow> reply_out_of_bound float_table (replies (garbled_then_valid n) k)"
  "\<not> k < n \<Longrightarrow> reply_valid float_table (replies (garbled_then_valid n) k)"
  "\<not> k < n \<Longrightarrow> reply_values float_table (replies (garbled_then_valid n) k)
                   = [(1 / 2, 1 / 4), (0, 1 / 2)]"
  by (simp_all add: garbled_then_valid_def reply_out_of_bound_def reply_valid_def
        reply_values_def List.map_filter_simps float_table_pairs in_bounds_def
        del: not_None_eq)

theorem readData_retry_witness:
  "validateInput (garbled_then_valid 9) \<and> validateInput (garbled_then_valid 10)
   \<and> reply_out_of_bound float_table [''0.5 0.25'', ''10.0 0.0'']
   \<and> scan_values float_table True [''0.5 0.25'', ''10.0 0.0''] True [] = Inr (False, [(1 / 2, 1 / 4)])
   \<and> readData float_table (garbled_then_valid 9)
       = ((garbled_then_valid 9)\<lparr>reads := 10\<rparr>, Inr [(1 / 2, 1 / 4), (0, 1 / 2)])
   \<and> readData float_table (garbled_then_valid 10)
       = ((garbled_then_valid 10)\<lparr>reads := 10\<rparr>, Inl IOError)"
proof -
  have v9: "validateInput (garbled_then_valid 9)"
    and v10: "validateInput (garbled_then_valid 10)"
    and r: "reads (garbled_then_valid n) = 0" for n
    by (simp_all add: garbled_then_valid_def)
  have oob: "reply_out_of_bound float_table [''0.5 0.25'', ''10.0 0.0'']"
    using garbled_replies(1) [of 0 1] by (simp add: garbled_then_valid_def)
  from readData_retry [OF v9, of float_table "[''0.5 0.25'', ''10.0 0.0'']" 9]
  have a: "readData float_table (garbled_then_valid 9)
       = ((garbled_then_valid 9)\<lparr>reads := 10\<rparr>, Inr [(1 / 2, 1 / 4), (0, 1 / 2)])"
    by (simp add: garbled_replies r)
  have s: "scan_values float_table True [''0.5 0.25'', ''10.0 0.0''] True []
       = Inr (False, [(1 / 2, 1 / 4)])"
    by (simp add: float_table_def)
  from readData_retry [OF v10, of float_table "[]" 0]
  have b: "readData float_table (garbled_then_valid 10)
       = ((garbled_then_valid 10)\<lparr>reads := 10\<rparr>, Inl IOError)"
    by (simp add: garbled_replies r)
  show ?thesis
    using v9 v10 oob s a b by simp
qed
section \<open>Facts about the worker\<close>

lemma Sweep_default: "Sweep 3600000 30000000 101 1 = Inr (sweep (SweepWorker v))"
  by (simp add: Sweep_def stepsize_def check_def int_of_float_def SweepWorker_def)

text \<open>
  Claim C9 fails as the specification words it: run on a session that is not connected
  emits no signal at all, sets no error message and returns normally; the attempt ends
  silently.
\<close>

theorem run_not_connected_counterexample:
  "\<not> connected_vna (vna (SweepWorker unplugged))
   \<and> sweepError \<notin> set (emitted (fst (run (\<lambda>s. 1000000) (\<lambda>w sw. (w, None)) window
                                        (SweepWorker unplugged))))
   \<and> error_message (fst (run (\<lambda>s. 1000000) (\<lambda>w sw. (w, None)) window
                            (SweepWorker unplugged))) = []
   \<and> snd (run (\<lambda>s. 1000000) (\<lambda>w sw. (w, None)) window (SweepWorker unplugged)) = None"
  by (simp add: run_def SweepWorker_def unplugged_def)

text \<open>
  Claim C9, as the code has it. When the session reports not connected, run returns at
  once: \<^verbatim>\<open>percentage\<close> is 0 and \<^verbatim>\<open>running\<close> is false, nothing else of the worker
  changes, no exception leaves run, no signal is emitted (neither \<^verbatim>\<open>sweepError\<close> nor
  \<^verbatim>\<open>finished\<close>), the error message is as before, and the session is as before: no
  command was sent and nothing was read.
\<close>

theorem run_not_connected:
  assumes "\<not> connected_vna (vna w)"
  shows "run parse_frequency sweep_segments a w = (w\<lparr>percentage := 0, running := False\<rparr>, None)
       \<and> emitted (fst (run parse_frequency sweep_segments a w)) = emitted w
       \<and> error_message (fst (run parse_frequency sweep_segments a w)) = error_message w
       \<and> vna (fst (run parse_frequency sweep_segments a w)) = vna w"
  using assms by (simp add: run_def)

theorem run_not_connected_witness:
  "\<not> connected_vna (vna (SweepWorker unplugged))
   \<and> run (\<lambda>s. 1000000) (\<lambda>w sw. (w, None)) window (SweepWorker unplugged)
       = (SweepWorker unplugged, None)
   \<and> reads (vna (fst (run (\<lambda>s. 1000000) (\<lambda>w sw. (w, None)) window (SweepWorker unplugged)))) = 0
   \<and> commands (vna (fst (run (\<lambda>s. 1000000) (\<lambda>w sw. (w, None)) window (SweepWorker unplugged))))
       = []"
proof -
  have nc: "\<not> connected_vna (vna (SweepWorker unplugged))"
    by (simp add: SweepWorker_def unplugged_def)
  from run_not_connected [OF nc, of "\<lambda>s. 1000000" "\<lambda>w sw. (w, None)" window]
  show ?thesis
    using nc by (simp add: SweepWorker_def unplugged_def)
qed

section \<open>Facts about trimmed averaging\<close>










section \<open>Facts about the Touchstone reader\<close>

lemma store_ri_not_structural:
  "store_ri pyfloat fr sd k vals = Inl e \<Longrightarrow> \<not> structural e"
  by (induction pyfloat fr sd k vals rule: store_ri.induct)
     (auto simp: structural_def split: if_splits option.splits)

lemma store_ma_not_structural:
  "store_ma pyfloat vals = Inl e \<Longrightarrow> \<not> structural e"
  by (induction pyfloat vals rule: store_ma.induct)
     (auto simp: structural_def split: option.splits)

lemma store_values_not_structural:
  "store_values pyfloat fmt fr sd vals = Inl e \<Longrightarrow> \<not> structural e"
  by (auto simp: store_values_def ebind_def store_ri_not_structural store_ma_not_structural
      split: if_splits sum.splits)

lemma store_ma_never_returns:
  "store_ma pyfloat (v # vals) \<noteq> Inr u"
  by (cases vals) (auto split: option.splits)

lemma store_values_ma_never_stores:
  "store_values pyfloat ''ma'' fr sd (v # vals) \<noteq> Inr sd'"
  using store_ma_never_returns [of pyfloat v vals]
  by (auto simp: store_values_def ebind_def split: sum.splits)

lemma store_values_db_stores_nothing:
  "store_values pyfloat ''db'' fr sd vals = Inr sd"
  by (simp add: store_values_def)

lemma data_lines_Cons:
  "data_lines (line # rest)
     = (if strip line = [] then data_lines rest else line # data_lines rest)"
  by (simp add: data_lines_def)

lemma no_violation_Cons:
  "no_violation pyfloat opt (pfq, pl) (line # ls) \<longleftrightarrow>
     ascends (Some pfq) (freq_of pyfloat opt line) \<and>
     successively ascends (freq_of pyfloat opt line # map (freq_of pyfloat opt) ls) \<and>
     even (count_of line) \<and> list_all (\<lambda>l. even (count_of l)) ls \<and>
     agrees pl (count_of line) \<and> (\<forall>l \<in> set ls. agrees pl (count_of l)) \<and>
     (\<forall>l \<in> set ls. agrees (count_of line) (count_of l)) \<and>
     sorted_wrt agrees (map count_of ls)"
  by (auto simp: no_violation_def)

lemma no_violation_state:
  "no_violation pyfloat opt (pfq, pl) ls \<longleftrightarrow>
     successively ascends (Some pfq # map (freq_of pyfloat opt) ls) \<and>
     list_all (\<lambda>l. even (count_of l)) ls \<and>
     (\<forall>l \<in> set ls. agrees pl (count_of l)) \<and> sorted_wrt agrees (map count_of ls)"
  by (auto simp: no_violation_def)

lemma loads_lines_success:
  assumes "loads_lines pyfloat opt st sd ls = Inr sd'"
  shows "no_violation pyfloat opt st (data_lines ls)"
  using assms
proof (induction ls arbitrary: st sd)
  case Nil
  then show ?case by (simp add: no_violation_def data_lines_def)
next
  case (Cons line rest)
  obtain pfq pl where st: "st = (pfq, pl)" by (cases st)
  show ?case
  proof (cases "strip line = []")
    case True
    with Cons show ?thesis by (simp add: st data_lines_Cons)
  next
    case False
    from Cons.prems False obtain d0 data f sd1 where
      tok: "line_tokens line = d0 # data" and f: "pyfloat d0 = Some f"
      and asc: "\<not> f * real_of_int (factor opt) \<le> pfq"
      and ev: "length data mod 2 = 0"
      and len: "pl = 0 \<or> length data = pl"
      and rest: "loads_lines pyfloat opt
                   (f * real_of_int (factor opt), if pl = 0 then length data else pl) sd1 rest
                 = Inr sd'"
      by (auto simp: st Let_def split: list.splits option.splits if_splits sum.splits)
    have fr: "freq_of pyfloat opt line = Some (f * real_of_int (factor opt))"
      and cnt: "count_of line = length data"
      by (simp_all add: freq_of_def count_of_def tok f)
    have pl1: "(if pl = 0 then length data else pl) = length data"
      using len by auto
    note ih = Cons.IH [OF rest, unfolded no_violation_state pl1]
    have a: "ascends (Some pfq) (Some (f * real_of_int (factor opt)))"
      using asc by (simp add: ascends_def)
    have b: "agrees pl (length data)"
      using len by (auto simp: agrees_def)
    have c: "agrees pl (count_of l)" if "l \<in> set (data_lines rest)" for l
    proof (cases "pl = 0")
      case True
      then show ?thesis by (simp add: agrees_def)
    next
      case False
      with len have "length data = pl" by simp
      with ih that show ?thesis by auto
    qed
    have "no_violation pyfloat opt (pfq, pl) (line # data_lines rest)"
      unfolding no_violation_Cons fr cnt using a b c ih ev by auto
    then show ?thesis
      unfolding st data_lines_Cons using False by simp
  qed
qed

lemma loads_lines_no_structural:
  assumes "no_violation pyfloat opt st (data_lines ls)"
    and "loads_lines pyfloat opt st sd ls = Inl e"
  shows "\<not> structural e"
  using assms
proof (induction ls arbitrary: st sd)
  case Nil
  then show ?case by simp
next
  case (Cons line rest)
  obtain pfq pl where st: "st = (pfq, pl)" by (cases st)
  show ?case
  proof (cases "strip line = []")
    case True
    with Cons show ?thesis by (simp add: st data_lines_Cons)
  next
    case False
    with Cons.prems(1) have nv: "no_violation pyfloat opt (pfq, pl) (line # data_lines rest)"
      by (simp add: st data_lines_Cons)
    show ?thesis
    proof (cases "line_tokens line")
      case Nil
      with Cons.prems(2) False show ?thesis
        by (simp add: st structural_def)
    next
      case (Cons d0 data)
      note tok = this
      show ?thesis
      proof (cases "pyfloat d0")
        case None
        with Cons.prems(2) False tok show ?thesis
          by (simp add: st structural_def)
      next
        case (Some f)
        define fr where "fr = f * real_of_int (factor opt)"
        define pl1 where "pl1 = (if pl = 0 then length data else pl)"
        have frq: "freq_of pyfloat opt line = Some fr"
          and cnt: "count_of line = length data"
          by (simp_all add: freq_of_def count_of_def tok Some fr_def)
        note nvc = nv [unfolded no_violation_Cons frq cnt]
        have asc: "\<not> fr \<le> pfq"
          using nvc by (simp add: ascends_def)
        have ev: "length data mod 2 = 0"
          using nvc by (simp add: even_iff_mod_2_eq_zero)
        have len: "pl = 0 \<or> pl = length data"
          using nvc by (auto simp: agrees_def)
        have ag: "agrees pl1 (count_of l)" if "l \<in> set (data_lines rest)" for l
          using nvc that by (cases "pl = 0") (simp_all add: pl1_def)
        have nv': "no_violation pyfloat opt (fr, pl1) (data_lines rest)"
          unfolding no_violation_state using nvc ag by simp
        have "loads_lines pyfloat opt (pfq, pl) sd (line # rest) =
              (case store_values pyfloat (format opt) fr sd data of
                 Inl err \<Rightarrow> Inl err
               | Inr sd1 \<Rightarrow> loads_lines pyfloat opt (fr, pl1) sd1 rest)"
          unfolding fr_def pl1_def
          using False tok Some asc [unfolded fr_def] ev len
          by (auto simp: Let_def)
        with Cons.prems(2)
        have "(case store_values pyfloat (format opt) fr sd data of
                 Inl err \<Rightarrow> Inl err
               | Inr sd1 \<Rightarrow> loads_lines pyfloat opt (fr, pl1) sd1 rest) = Inl e"
          by (simp add: st)
        then show ?thesis
          using store_values_not_structural Cons.IH [OF nv']
          by (auto split: sum.splits)
      qed
    qed
  qed
qed

lemma store_ri_succeeds:
  assumes "list_all (\<lambda>v. pyfloat v \<noteq> None) vals" and "even (length vals)"
    and "k + length vals div 2 \<le> length sd"
  shows "\<exists>sd'. store_ri pyfloat fr sd k vals = Inr sd' \<and> length sd' = length sd"
  using assms
proof (induction pyfloat fr sd k vals rule: store_ri.induct)
  case (1 pyfloat fr sd k)
  then show ?case by simp
next
  case (2 pyfloat fr sd k v)
  then show ?case by simp
next
  case (3 pyfloat fr sd k v u rest)
  from "3.prems" obtain x y where xy: "pyfloat v = Some x" "pyfloat u = Some y"
    by auto
  from "3.prems" have k: "\<not> k \<ge> length sd"
    by simp
  have "\<exists>sd'. store_ri pyfloat fr (sd[k := sd ! k @ [Datapoint fr x y]]) (Suc k) rest = Inr sd'
          \<and> length sd' = length (sd[k := sd ! k @ [Datapoint fr x y]])"
    using "3.prems" k xy by (intro "3.IH") auto
  then show ?case
    using k xy by simp
qed

lemma store_values_succeeds:
  assumes "storable_values pyfloat fmt (length sd) vals" and "even (length vals)"
  shows "\<exists>sd'. store_values pyfloat fmt fr sd vals = Inr sd' \<and> length sd' = length sd"
proof (cases "fmt = ''ri''")
  case True
  with assms have "list_all (\<lambda>v. pyfloat v \<noteq> None) vals" "0 + length vals div 2 \<le> length sd"
    by (auto simp: storable_values_def)
  from store_ri_succeeds [OF this(1) assms(2) this(2)] True show ?thesis
    by (simp add: store_values_def)
next
  case False
  with assms show ?thesis
    by (auto simp: storable_values_def store_values_def ebind_def split: if_splits)
qed

lemma loads_lines_violation_kind:
  assumes "list_all (storable pyfloat (format opt) (length sd)) (data_lines ls)"
    and "\<not> no_violation pyfloat opt st (data_lines ls)"
  shows "\<exists>e. loads_lines pyfloat opt st sd ls = Inl e \<and> structural e"
  using assms
proof (induction ls arbitrary: st sd)
  case Nil
  then show ?case by (simp add: data_lines_def no_violation_def)
next
  case (Cons line rest)
  obtain pfq pl where st: "st = (pfq, pl)" by (cases st)
  show ?case
  proof (cases "strip line = []")
    case True
    with Cons show ?thesis by (simp add: st data_lines_Cons)
  next
    case False
    from Cons.prems False
    have sto: "storable pyfloat (format opt) (length sd) line"
      and sto_rest: "list_all (storable pyfloat (format opt) (length sd)) (data_lines rest)"
      and viol: "\<not> no_violation pyfloat opt (pfq, pl) (line # data_lines rest)"
      by (simp_all add: st data_lines_Cons)
    from sto obtain d0 vals f where tok: "line_tokens line = d0 # vals"
      and f: "pyfloat d0 = Some f"
      and sv: "storable_values pyfloat (format opt) (length sd) vals"
      by (auto simp: storable_def split: list.splits)
    define fr where "fr = f * real_of_int (factor opt)"
    define pl1 where "pl1 = (if pl = 0 then length vals else pl)"
    have frq: "freq_of pyfloat opt line = Some fr" and cnt: "count_of line = length vals"
      by (simp_all add: freq_of_def count_of_def tok f fr_def)
    have unfold: "loads_lines pyfloat opt (pfq, pl) sd (line # rest) =
        (if fr \<le> pfq then Inl (TypeError FrequencyNotAscending)
         else if length vals mod 2 \<noteq> 0 then Inl (TypeError DataValuesNotPairs)
         else if length vals \<noteq> pl1 then Inl (TypeError InconsistentPairs)
         else (case store_values pyfloat (format opt) fr sd vals of
                 Inl err \<Rightarrow> Inl err
               | Inr sd1 \<Rightarrow> loads_lines pyfloat opt (fr, pl1) sd1 rest))"
      unfolding fr_def pl1_def using False tok f by (simp add: Let_def)
    show ?thesis
    proof (cases "fr \<le> pfq \<or> length vals mod 2 \<noteq> 0 \<or> length vals \<noteq> pl1")
      case True
      then show ?thesis
        unfolding st unfold by (auto simp: structural_def)
    next
      case False
      then have pass: "\<not> fr \<le> pfq" "even (length vals)" "length vals = pl1"
        by (auto simp: even_iff_mod_2_eq_zero)
      from store_values_succeeds [OF sv pass(2), of fr] obtain sd1 where
        sd1: "store_values pyfloat (format opt) fr sd vals = Inr sd1" "length sd1 = length sd"
        by blast
      have viol': "\<not> no_violation pyfloat opt (fr, pl1) (data_lines rest)"
      proof
        assume nv: "no_violation pyfloat opt (fr, pl1) (data_lines rest)"
        note nvs = nv [unfolded no_violation_state]
        have a: "agrees pl (count_of l)" if "l \<in> set (data_lines rest)" for l
          using nvs that by (cases "pl = 0") (auto simp: pl1_def agrees_def)
        have b: "agrees (length vals) (count_of l)" if "l \<in> set (data_lines rest)" for l
          using nvs that pass(3) by auto
        have c: "agrees pl (length vals)"
          using pass(3) by (auto simp: pl1_def agrees_def split: if_splits)
        have "no_violation pyfloat opt (pfq, pl) (line # data_lines rest)"
          unfolding no_violation_Cons frq cnt
          using nvs a b c pass by (auto simp: ascends_def)
        with viol show False by simp
      qed
      from Cons.IH [of sd1 "(fr, pl1)"] sto_rest viol' sd1(2)
      have "\<exists>e. loads_lines pyfloat opt (fr, pl1) sd1 rest = Inl e \<and> structural e"
        by simp
      then show ?thesis
        unfolding st unfold using pass sd1(1) by simp
    qed
  qed
qed

text \<open>
  The three checks over a whole file whose options line parses. When the loop finds a
  violation, \<^verbatim>\<open>loads\<close> raises; the exception is one of the three structural errors
  (frequency not ascending, values not pairs, inconsistent number of pairs) when every
  data line can be taken in, so that no error of another kind comes first. When the
  loop finds no violation, \<^verbatim>\<open>loads\<close> raises none of the three.
\<close>

lemma loads_structural_checks:
  assumes "parse_comments (lines_of [] s) (comments ts) = (Some opts_line, cs, rest)"
    and "parse (opts ts) opts_line = Inr opt"
  shows "(\<not> no_violation pyfloat opt (0, 0) (data_lines rest)
            \<longrightarrow> (\<exists>e. loads pyfloat ts s = Inl e))
       \<and> (\<not> no_violation pyfloat opt (0, 0) (data_lines rest)
          \<and> list_all (storable pyfloat (format opt) (length (sdata ts))) (data_lines rest)
            \<longrightarrow> (\<exists>e. loads pyfloat ts s = Inl e \<and> structural e))
       \<and> (no_violation pyfloat opt (0, 0) (data_lines rest)
            \<longrightarrow> (\<forall>e. loads pyfloat ts s = Inl e \<longrightarrow> \<not> structural e))"
proof -
  have eq: "loads pyfloat ts s =
      (case loads_lines pyfloat opt (0, 0) (sdata ts) rest of
         Inl err \<Rightarrow> Inl err
       | Inr sd \<Rightarrow> Inr (ts\<lparr>comments := cs, opts := opt, sdata := sd\<rparr>))"
    using assms by (simp add: loads_def)
  have "\<exists>e. loads pyfloat ts s = Inl e"
    if "\<not> no_violation pyfloat opt (0, 0) (data_lines rest)"
  proof (cases "loads_lines pyfloat opt (0, 0) (sdata ts) rest")
    case (Inl e)
    then show ?thesis by (simp add: eq)
  next
    case (Inr sd)
    then show ?thesis using that loads_lines_success by blast
  qed
  moreover have "\<exists>e. loads pyfloat ts s = Inl e \<and> structural e"
    if "\<not> no_violation pyfloat opt (0, 0) (data_lines rest)"
      and "list_all (storable pyfloat (format opt) (length (sdata ts))) (data_lines rest)"
    using loads_lines_violation_kind [OF that(2) that(1)] by (auto simp: eq)
  moreover have "\<not> structural e"
    if "no_violation pyfloat opt (0, 0) (data_lines rest)" and "loads pyfloat ts s = Inl e" for e
  proof -
    from that(2) have "loads_lines pyfloat opt (0, 0) (sdata ts) rest = Inl e"
      by (auto simp: eq split: sum.splits)
    with that(1) show ?thesis by (rule loads_lines_no_structural)
  qed
  ultimately show ?thesis by blast
qed

lemma loads_structural_examples:
  "loads float_digits (Touchstone []) (file_text [''! c'', ''# hz s ri'', ''1 1 0'', ''1 0 1''])
     = Inl (TypeError FrequencyNotAscending)"
  "loads float_digits (Touchstone []) (file_text [''# hz s ri'', ''2 1 0'', ''1 0 1''])
     = Inl (TypeError FrequencyNotAscending)"
  "loads float_digits (Touchstone []) (file_text [''# hz s ri'', ''1 1 0 1''])
     = Inl (TypeError DataValuesNotPairs)"
  "loads float_digits (Touchstone []) (file_text [''# hz s ri'', ''1 1 0'', ''2 1 0 0 1''])
     = Inl (TypeError InconsistentPairs)"
  "loads float_digits (Touchstone []) (file_text [''# hz s ri'', ''1 1 0'', [], ''2 0 1''])
     = Inr ((Touchstone [])\<lparr>comments := [], opts := Options\<lparr>factor := 1, format := ''ri''\<rparr>,
              sdata := [[Datapoint 1 1 0, Datapoint 2 0 1], [], [], []]\<rparr>)"
  by code_simp+

text \<open>
  Claim C6 against the code. The claim has parsing fail whenever a data line's number
  of values differs from that of the first data line. In this file the first data line
  has no value and the second has two, and \<^verbatim>\<open>loads\<close> returns normally with the pair of
  the second line stored: \<^verbatim>\<open>prev_len\<close> is still 0 after the first line, which the loop
  reads as "no data line yet", so the check for an inconsistent number of pairs
  compares the second line with itself.
\<close>

theorem loads_accepts_differing_count:
  "count_of ''1'' = 0 \<and> count_of ''2 1 0'' = 2
   \<and> loads float_digits (Touchstone []) (file_text [''# hz s ri'', ''1'', ''2 1 0''])
       = Inr ((Touchstone [])\<lparr>comments := [], opts := Options\<lparr>factor := 1, format := ''ri''\<rparr>,
                sdata := [[Datapoint 2 1 0], [], [], []]\<rparr>)"
  by code_simp

text \<open>
  Claim C5 against the code. Under \<^verbatim>\<open>ma\<close> the first pair of the first data line
  raises TypeError, so nothing is converted or stored; under \<^verbatim>\<open>db\<close> the file parses
  and every parameter list stays empty. Only \<^verbatim>\<open>ri\<close> stores the pairs.
\<close>

theorem loads_ma_db_store_nothing:
  "loads float_digits (Touchstone []) (file_text [''# hz s ma r 50'', ''1 1 0''])
       = Inl (TypeError BadCall)
   \<and> loads float_digits (Touchstone []) (file_text [''# hz s db r 50'', ''1 1 0''])
       = Inr ((Touchstone [])\<lparr>comments := [], opts := Options\<lparr>factor := 1, format := ''db''\<rparr>,
                sdata := [[], [], [], []]\<rparr>)
   \<and> loads float_digits (Touchstone []) (file_text [''# hz s ri r 50'', ''1 1 0 0 1''])
       = Inr ((Touchstone [])\<lparr>comments := [], opts := Options\<lparr>factor := 1, format := ''ri''\<rparr>,
                sdata := [[Datapoint 1 1 0], [Datapoint 1 0 1], [], []]\<rparr>)"
  by code_simp

text \<open>
  Claim C7 against the code. The branch for \<^verbatim>\<open>r\<close> never sets \<^verbatim>\<open>presist\<close>, so a
  second \<^verbatim>\<open>r <value>\<close> is accepted and its value replaces the first.
\<close>

theorem parse_accepts_second_resistance:
  "parse Options ''# hz s ri r 50 r 75''
     = Inr \<lparr>factor = 1, parameter = ''s'', format = ''ri'', resistance = 75\<rparr>"
  by code_simp

lemma parse_accepts_substring_parameter:
  "parse Options ''# hz sy ri''
     = Inr \<lparr>factor = 1, parameter = ''sy'', format = ''ri'', resistance = 50\<rparr>"
  by code_simp

lemma parse_rejects_duplicates:
  "parse Options ''# hz hz'' = Inl (TypeError IllegalOptionLine)"
  "parse Options ''# s ri s'' = Inl (TypeError IllegalOptionLine)"
  "parse Options ''# ri db'' = Inl (TypeError IllegalOptionLine)"
  "parse Options ''# hz foo'' = Inl (TypeError IllegalOptionLine)"
  by code_simp+

section \<open>Further facts: how the parts meet\<close>

text \<open>
  In \<^verbatim>\<open>run\<close> the handler around the construction of the plan catches ValueError only:
  the ZeroDivisionError of a plan with one point and one segment leaves \<^verbatim>\<open>run\<close>, where
  an illegal setting such as a negative start is reported with \<^verbatim>\<open>sweepError\<close>.
\<close>

lemma run_one_point_one_segment:
  assumes "connected_vna (vna w)" and "datapoints (vna w) = 1" and "py_int (sweepCountInput a) = Some 1"
  shows "run parse_frequency sweep_segments a w
           = (w\<lparr>running := True, percentage := 0\<rparr>, Some ZeroDivisionError)"
  using assms by (simp add: run_def Sweep_def stepsize_def)

lemma run_illegal_setting:
  assumes "connected_vna (vna w)"
    and "parse_frequency (sweepEndInput a) - parse_frequency (sweepStartInput a) < 2 ^ 53"
    and "py_int (sweepCountInput a) = Some n" and "Sweep (parse_frequency (sweepStartInput a))
          (parse_frequency (sweepEndInput a)) (datapoints (vna w)) n = Inl ValueError"
  shows "emitted (fst (run parse_frequency sweep_segments a w)) = emitted w @ [sweepError]
       \<and> snd (run parse_frequency sweep_segments a w) = None"
  using assms by (simp add: run_def)

text \<open>
  The two channels that \<^verbatim>\<open>readAveragedSegment\<close> returns are the trimmed averages of
  the repeats it has read.
\<close>

lemma readAveragedSegment_trimmed:
  assumes "read_repeats pyfloat s e avgs (nat avgs) w ([], [], []) = (w1, Inr (fr, val11, val21))"
    and "readAveragedSegment pyfloat w s e avgs = (w2, Inr (fr2, return11, return21))"
  shows "w2 = w1 \<and> fr2 = fr
       \<and> trimmed_average val11 (truncates w1) = Inr return11
       \<and> trimmed_average val21 (truncates w1) = Inr return21"
  using assms
  by (auto simp: readAveragedSegment_def trimmed_average_def ebind_def split: sum.splits)

end
